theory Spec2Isabelle
  imports Complex_Main "HOL-Library.Sublist"
begin

section \<open>Data model of \<^verbatim>\<open>index.ts\<close>\<close>

text \<open>
  The JavaScript numbers that reach the registry come from JSON documents and from the
  literals of the source, and are only copied, defaulted and compared with zero. Such a
  number is finite or, for a JSON literal beyond the range of a double such as
  \<^verbatim>\<open>1e999\<close>, an infinity; \<^verbatim>\<open>NaN\<close> cannot arise. A member of a JSON object is an
  \<open>option\<close>: \<open>None\<close> stands for \<^verbatim>\<open>undefined\<close> and \<^verbatim>\<open>null\<close>, which \<^verbatim>\<open>?.\<close> and
  \<^verbatim>\<open>??\<close> treat alike. The number members of a \<^verbatim>\<open>ModelConfig\<close> are options too: one
  that was read back from the cache file can hold \<^verbatim>\<open>null\<close>.
\<close>

datatype number = Num real | PosInfinity | NegInfinity

datatype Backend = Anthropic | OpenAIResponses | OpenAICompletions | Google

datatype Modality = Text | Image

text \<open>The \<^verbatim>\<open>cost\<close> member of a \<^verbatim>\<open>ModelConfig\<close>; the field \<^verbatim>\<open>x\<close> is \<open>cost_x\<close>.\<close>

record Cost =
  cost_input :: "number option"
  cost_output :: "number option"
  cost_cacheRead :: "number option"
  cost_cacheWrite :: "number option"

text \<open>Interface \<^verbatim>\<open>ModelConfig\<close>; the field \<^verbatim>\<open>x\<close> is \<open>mc_x\<close>.\<close>

record ModelConfig =
  mc_id :: string
  mc_name :: string
  mc_backend :: Backend
  mc_reasoning :: bool
  mc_input :: "Modality list"
  mc_cost :: Cost
  mc_contextWindow :: "number option"
  mc_maxTokens :: "number option"

text \<open>
  Interface \<^verbatim>\<open>ModelsDevAPI\<close>: the \<^verbatim>\<open>opencode\<close> member and its parts. The interface
  declares \<^verbatim>\<open>id\<close> and \<^verbatim>\<open>name\<close> as strings; a value without them reads as one with
  empty strings, which \<^verbatim>\<open>||\<close> treats like \<^verbatim>\<open>undefined\<close>.
\<close>

record DevCost =
  dc_input :: "number option"
  dc_output :: "number option"
  dc_cache_read :: "number option"
  dc_cache_write :: "number option"

record DevLimit =
  lim_context :: "number option"
  lim_output :: "number option"

record DevProvider =
  npm :: "string option"
  api :: "string option"

record DevModel =
  dev_id :: string
  dev_name :: string
  dev_cost :: "DevCost option"
  dev_limit :: "DevLimit option"
  dev_reasoning :: "bool option"
  dev_attachment :: "bool option"
  dev_tool_call :: "bool option"
  dev_modalities :: "string list option"
  dev_provider :: "DevProvider option"

record OpenCode =
  models :: "(string \<rightharpoonup> DevModel) option"
  provider :: "DevProvider option"

section \<open>Merge engine\<close>

text \<open>
  \<^verbatim>\<open>getBackendFromNpmPackage\<close>. The test \<^verbatim>\<open>!npmPackage\<close> holds for an absent hint
  and for the empty string.
\<close>

definition getBackendFromNpmPackage :: "string option \<Rightarrow> string option \<Rightarrow> Backend" where
  "getBackendFromNpmPackage npmPackage defaultBackend =
     (if npmPackage = None \<or> npmPackage = Some [] then
        (if defaultBackend = Some ''@ai-sdk/anthropic'' then Anthropic
         else if defaultBackend = Some ''@ai-sdk/openai'' then OpenAIResponses
         else if defaultBackend = Some ''@ai-sdk/google'' then Google
         else OpenAICompletions)
      else if npmPackage = Some ''@ai-sdk/anthropic'' then Anthropic
      else if npmPackage = Some ''@ai-sdk/openai'' then OpenAIResponses
      else if npmPackage = Some ''@ai-sdk/google'' then Google
      else OpenAICompletions)"

text \<open>The test \<^verbatim>\<open>m.cost.input === 0 && m.cost.output === 0\<close>, written out five times in the source.\<close>

definition isFreeModel :: "ModelConfig \<Rightarrow> bool" where
  "isFreeModel m =
     (cost_input (mc_cost m) = Some (Num 0) \<and> cost_output (mc_cost m) = Some (Num 0))"

text \<open>\<^verbatim>\<open>a ?? d\<close> on an optional number, and \<^verbatim>\<open>s || d\<close> on a string.\<close>

definition nullish :: "'a option \<Rightarrow> 'a \<Rightarrow> 'a" where
  "nullish a d = (case a of None \<Rightarrow> d | Some v \<Rightarrow> v)"

definition or_else :: "string \<Rightarrow> string \<Rightarrow> string" where
  "or_else s d = (if s = [] then d else s)"

text \<open>\<^verbatim>\<open>modelsDevData?.provider?.npm\<close>.\<close>

definition providerDefaultNpm :: "OpenCode option \<Rightarrow> string option" where
  "providerDefaultNpm modelsDevData =
     (case modelsDevData of None \<Rightarrow> None
      | Some d \<Rightarrow> (case provider d of None \<Rightarrow> None | Some p \<Rightarrow> npm p))"

text \<open>
  The \<^verbatim>\<open>models\<close> member is an object made by \<^verbatim>\<open>JSON.parse\<close>, and \<open>models d\<close> maps the
  names of its own properties to their values. The lookup \<^verbatim>\<open>models[modelId]\<close> also finds
  what every object inherits from \<^verbatim>\<open>Object.prototype\<close>: under \<^verbatim>\<open>constructor\<close> the
  function \<^verbatim>\<open>Object\<close>, under \<^verbatim>\<open>__proto__\<close> the prototype itself, and under ten more
  names a function named like its key. These values are truthy. Read as an entry, such a
  value has none of the members the loop body asks for, except that a function has a
  \<^verbatim>\<open>name\<close>.
\<close>

definition inheritedName :: "string \<Rightarrow> string option" where
  "inheritedName key =
     (if key = ''constructor'' then Some ''Object''
      else if key = ''__proto__'' then Some []
      else if key \<in> set [''toString'', ''toLocaleString'', ''valueOf'', ''hasOwnProperty'',
                          ''isPrototypeOf'', ''propertyIsEnumerable'', ''__defineGetter__'',
                          ''__defineSetter__'', ''__lookupGetter__'', ''__lookupSetter__'']
      then Some key
      else None)"

definition inheritedMember :: "string \<Rightarrow> DevModel option" where
  "inheritedMember key =
     (case inheritedName key of
        None \<Rightarrow> None
      | Some n \<Rightarrow>
          Some \<lparr> dev_id = [], dev_name = n, dev_cost = None, dev_limit = None,
                 dev_reasoning = None, dev_attachment = None, dev_tool_call = None,
                 dev_modalities = None, dev_provider = None \<rparr>)"

text \<open>The own property of \<^verbatim>\<open>modelsDevData?.models\<close> under the id, if there is one.\<close>

definition ownEntry :: "OpenCode option \<Rightarrow> string \<Rightarrow> DevModel option" where
  "ownEntry modelsDevData modelId =
     (case modelsDevData of None \<Rightarrow> None
      | Some d \<Rightarrow> (case models d of None \<Rightarrow> None | Some ms \<Rightarrow> ms modelId))"

text \<open>\<^verbatim>\<open>modelsDevData?.models?.[modelId]\<close>, the value tested by \<^verbatim>\<open>if (devModel)\<close>.\<close>

definition devModelOf :: "OpenCode option \<Rightarrow> string \<Rightarrow> DevModel option" where
  "devModelOf modelsDevData modelId =
     (case modelsDevData of None \<Rightarrow> None
      | Some d \<Rightarrow>
          (case models d of
             None \<Rightarrow> None
           | Some ms \<Rightarrow>
               (case ms modelId of
                  Some devModel \<Rightarrow> Some devModel
                | None \<Rightarrow> inheritedMember modelId)))"

text \<open>The routing hint of an entry, \<^verbatim>\<open>devModel.provider?.npm\<close>.\<close>

definition entryHint :: "DevModel \<Rightarrow> string option" where
  "entryHint devModel = (case dev_provider devModel of None \<Rightarrow> None | Some p \<Rightarrow> npm p)"

text \<open>The two branches of the loop body of \<^verbatim>\<open>buildModels\<close>.\<close>

definition enriched :: "DevModel \<Rightarrow> string option \<Rightarrow> string \<Rightarrow> ModelConfig" where
  "enriched devModel defaultNpm modelId =
     (let npmPackage = entryHint devModel;
          backend = getBackendFromNpmPackage npmPackage defaultNpm;
          modalities = dev_modalities devModel;
          inp = [Text] @
            (if dev_attachment devModel = Some True
                \<or> (case modalities of None \<Rightarrow> False | Some ms \<Rightarrow> ''image'' \<in> set ms)
             then [Image] else [])
      in \<lparr> mc_id = or_else (dev_id devModel) modelId,
           mc_name = or_else (dev_name devModel) modelId,
           mc_backend = backend,
           mc_reasoning = nullish (dev_reasoning devModel) False,
           mc_input = inp,
           mc_cost =
             \<lparr> cost_input = Some (nullish (case dev_cost devModel of None \<Rightarrow> None | Some c \<Rightarrow> dc_input c) (Num 0)),
               cost_output = Some (nullish (case dev_cost devModel of None \<Rightarrow> None | Some c \<Rightarrow> dc_output c) (Num 0)),
               cost_cacheRead = Some (nullish (case dev_cost devModel of None \<Rightarrow> None | Some c \<Rightarrow> dc_cache_read c) (Num 0)),
               cost_cacheWrite = Some (nullish (case dev_cost devModel of None \<Rightarrow> None | Some c \<Rightarrow> dc_cache_write c) (Num 0)) \<rparr>,
           mc_contextWindow = Some (nullish (case dev_limit devModel of None \<Rightarrow> None | Some l \<Rightarrow> lim_context l) (Num 128000)),
           mc_maxTokens = Some (nullish (case dev_limit devModel of None \<Rightarrow> None | Some l \<Rightarrow> lim_output l) (Num 16384)) \<rparr>)"

definition defaults :: "string \<Rightarrow> ModelConfig" where
  "defaults modelId =
     \<lparr> mc_id = modelId,
       mc_name = modelId,
       mc_backend = OpenAICompletions,
       mc_reasoning = False,
       mc_input = [Text],
       mc_cost = \<lparr> cost_input = Some (Num 0), cost_output = Some (Num 0),
                   cost_cacheRead = Some (Num 0), cost_cacheWrite = Some (Num 0) \<rparr>,
       mc_contextWindow = Some (Num 128000),
       mc_maxTokens = Some (Num 16384) \<rparr>"

definition modelFor :: "OpenCode option \<Rightarrow> string \<Rightarrow> ModelConfig" where
  "modelFor modelsDevData modelId =
     (case devModelOf modelsDevData modelId of
        Some devModel \<Rightarrow> enriched devModel (providerDefaultNpm modelsDevData) modelId
      | None \<Rightarrow> defaults modelId)"

text \<open>The \<^verbatim>\<open>for (const modelId of zenModelIds)\<close> loop, pushing onto \<^verbatim>\<open>models\<close>.\<close>

fun pushModels :: "OpenCode option \<Rightarrow> string list \<Rightarrow> ModelConfig list \<Rightarrow> ModelConfig list" where
  "pushModels modelsDevData [] acc = acc"
| "pushModels modelsDevData (modelId # rest) acc =
     pushModels modelsDevData rest (acc @ [modelFor modelsDevData modelId])"

section \<open>Persistent cache store\<close>

text \<open>
  The three cache files. A file is modelled by what \<^verbatim>\<open>JSON.parse\<close> of its text yields,
  read at the type the source casts it to; \<open>None\<close> stands for a file that is missing,
  unreadable or not JSON, which the loaders all answer in the same way. A write can fail
  (the source catches the exception and logs it): \<open>writable\<close> says, for each file,
  whether a write to it succeeds during the run, and \<open>written\<close> is the trace of the
  files written so far.

  \<^verbatim>\<open>JSON.stringify\<close> writes strings, booleans and arrays of strings so that
  \<^verbatim>\<open>JSON.parse\<close> reads them back as they were, and so a finite number; it writes
  \<^verbatim>\<open>Infinity\<close> and \<^verbatim>\<open>-Infinity\<close> as \<^verbatim>\<open>null\<close>. \<open>stringified\<close> is what is read back
  from the text written for a \<^verbatim>\<open>ModelConfig\<close>.
\<close>

definition jsonNumber :: "number option \<Rightarrow> number option" where
  "jsonNumber x = (case x of Some (Num r) \<Rightarrow> Some (Num r) | _ \<Rightarrow> None)"

definition stringified :: "ModelConfig \<Rightarrow> ModelConfig" where
  "stringified m =
     m\<lparr> mc_cost :=
           \<lparr> cost_input = jsonNumber (cost_input (mc_cost m)),
             cost_output = jsonNumber (cost_output (mc_cost m)),
             cost_cacheRead = jsonNumber (cost_cacheRead (mc_cost m)),
             cost_cacheWrite = jsonNumber (cost_cacheWrite (mc_cost m)) \<rparr>,
         mc_contextWindow := jsonNumber (mc_contextWindow m),
         mc_maxTokens := jsonNumber (mc_maxTokens m) \<rparr>"

datatype CacheFile = ZEN_MODELS_CACHE_FILE | MODELS_CACHE_FILE | FREE_MODEL_IDS_FILE

text \<open>The provider registration handed to the host: \<^verbatim>\<open>ModelConfig\<close> without the backend.\<close>

record ProviderModel =
  pm_id :: string
  pm_name :: string
  pm_reasoning :: bool
  pm_input :: "Modality list"
  pm_cost :: Cost
  pm_contextWindow :: "number option"
  pm_maxTokens :: "number option"

record state =
  zen_models_file :: "string list option"
  models_file :: "ModelConfig list option"
  free_ids_file :: "string list option"
  writable :: "CacheFile \<Rightarrow> bool"
  written :: "CacheFile list"
  console :: "string list"
  MODEL_MAP :: "(string \<times> ModelConfig) list"
  registered :: "ProviderModel list option"
  notification :: "(string list \<times> string list) option"

definition loadZenModelsFromCache :: "state \<Rightarrow> string list option" where
  "loadZenModelsFromCache s =
     (case zen_models_file s of
        None \<Rightarrow> None
      | Some modelIds \<Rightarrow> if length modelIds = 0 then None else Some modelIds)"

definition saveZenModelsToCache :: "string list \<Rightarrow> state \<Rightarrow> state" where
  "saveZenModelsToCache modelIds s =
     (if writable s ZEN_MODELS_CACHE_FILE
      then s\<lparr>zen_models_file := Some modelIds, written := written s @ [ZEN_MODELS_CACHE_FILE]\<rparr>
      else s\<lparr>console := console s @ [''Failed to save Zen models to cache:'']\<rparr>)"

text \<open>The validation loop of \<^verbatim>\<open>loadModelsFromCache\<close>; a backend is never the empty string.\<close>

fun validModels :: "ModelConfig list \<Rightarrow> bool" where
  "validModels [] = True"
| "validModels (model # rest) =
     (if mc_id model = [] \<or> mc_name model = [] then False else validModels rest)"

definition loadModelsFromCache :: "state \<Rightarrow> ModelConfig list option" where
  "loadModelsFromCache s =
     (case models_file s of
        None \<Rightarrow> None
      | Some ms \<Rightarrow>
          if length ms = 0 then None
          else if \<not> validModels ms then None
          else Some ms)"

definition saveModelsToCache :: "ModelConfig list \<Rightarrow> state \<Rightarrow> state" where
  "saveModelsToCache ms s =
     (if writable s MODELS_CACHE_FILE
      then s\<lparr>models_file := Some (map stringified ms),
              written := written s @ [MODELS_CACHE_FILE]\<rparr>
      else s\<lparr>console := console s @ [''Failed to save models to cache:'']\<rparr>)"

definition loadFreeModelIds :: "state \<Rightarrow> string list" where
  "loadFreeModelIds s = (case free_ids_file s of None \<Rightarrow> [] | Some ids \<Rightarrow> ids)"

definition saveFreeModelIds :: "string list \<Rightarrow> state \<Rightarrow> state" where
  "saveFreeModelIds ids s =
     (if writable s FREE_MODEL_IDS_FILE
      then s\<lparr>free_ids_file := Some ids, written := written s @ [FREE_MODEL_IDS_FILE]\<rparr>
      else s\<lparr>console := console s @ [''Failed to save free model IDs:'']\<rparr>)"

text \<open>
  \<^verbatim>\<open>buildModels\<close>: the loop, the write of the whole enriched list, then the filter to
  free models when no API key is configured.
\<close>

definition buildModels ::
  "string list \<Rightarrow> OpenCode option \<Rightarrow> bool \<Rightarrow> state \<Rightarrow> ModelConfig list \<times> state" where
  "buildModels zenModelIds modelsDevData hasApiKey s =
     (let ms = pushModels modelsDevData zenModelIds [];
          s' = saveModelsToCache ms s
      in (if \<not> hasApiKey then filter isFreeModel ms else ms, s'))"

section \<open>Source clients\<close>

text \<open>
  What one request meets: the \<^verbatim>\<open>fetch\<close> promise rejects, or a response arrives after
  some milliseconds with its \<^verbatim>\<open>ok\<close> flag and the value of \<^verbatim>\<open>response.json()\<close>
  (\<open>None\<close> when that rejects). A request under a deadline is aborted when the response
  has not arrived before the deadline.
\<close>

datatype 'a Reply = Rejected | Reply nat bool "'a option"

record ZenModel =
  zm_id :: string
  zm_object :: string
  zm_created :: number
  zm_owned_by :: string

text \<open>
  The \<^verbatim>\<open>data\<close> member of the body of Zen's answer: falsy (missing, \<^verbatim>\<open>null\<close>), truthy
  but not an array, or an array of entries.
\<close>

datatype ZenData = NoData | NotArray | DataArray "ZenModel list"

record ModelsDevAPI =
  opencode :: "OpenCode option"

text \<open>
  What \<^verbatim>\<open>fetchZenModels\<close> throws: an \<^verbatim>\<open>Error\<close> of its own (the status that the source
  appends to the first message is left out), or the rejection of \<^verbatim>\<open>fetch\<close> or of
  \<^verbatim>\<open>response.json()\<close>. A body that is not an object raises a \<^verbatim>\<open>TypeError\<close> on
  \<^verbatim>\<open>data.data\<close> and fails like a missing \<^verbatim>\<open>data\<close>.
\<close>

datatype Thrown = Error string | Rejection

definition fetchZenModels :: "ZenData Reply \<Rightarrow> Thrown + string list" where
  "fetchZenModels r =
     (case r of
        Rejected \<Rightarrow> Inl Rejection
      | Reply t ok body \<Rightarrow>
          if \<not> ok then Inl (Error ''Failed to fetch Zen models'')
          else (case body of
                  None \<Rightarrow> Inl Rejection
                | Some NoData \<Rightarrow> Inl (Error ''Invalid Zen API response: missing data array'')
                | Some NotArray \<Rightarrow> Inl (Error ''Invalid Zen API response: missing data array'')
                | Some (DataArray entries) \<Rightarrow> Inr (map zm_id entries)))"

text \<open>\<^verbatim>\<open>fetchWithTimeout\<close>: the response (here its body) or \<^verbatim>\<open>null\<close>.\<close>

definition fetchWithTimeout :: "'a Reply \<Rightarrow> nat \<Rightarrow> 'a option option" where
  "fetchWithTimeout r timeoutMs =
     (case r of
        Rejected \<Rightarrow> None
      | Reply t ok body \<Rightarrow> if t < timeoutMs then (if ok then Some body else None) else None)"

text \<open>
  What a run meets: the answers of the two endpoints, the environment variable, and the
  value that \<^verbatim>\<open>getExtensionSetting\<close> returns for the notification setting.
\<close>

record Env =
  zen :: "ZenData Reply"
  modelsDev :: "ModelsDevAPI Reply"
  OPENCODE_API_KEY :: "string option"
  notifySetting :: string

text \<open>Step 1 of \<^verbatim>\<open>fetchFreshModels\<close> up to the write; \<open>None\<close> is its \<^verbatim>\<open>return null\<close>.\<close>

definition zenModelIdsOf :: "ZenData Reply \<Rightarrow> nat option \<Rightarrow> string list option" where
  "zenModelIdsOf r timeoutMs =
     (case timeoutMs of
        Some t \<Rightarrow>
          (case fetchWithTimeout r t of
             None \<Rightarrow> None
           | Some None \<Rightarrow> None
           | Some (Some NoData) \<Rightarrow> None
           | Some (Some NotArray) \<Rightarrow> None
           | Some (Some (DataArray entries)) \<Rightarrow> Some (map zm_id entries))
      | None \<Rightarrow> (case fetchZenModels r of Inl e \<Rightarrow> None | Inr ids \<Rightarrow> Some ids))"

text \<open>Step 2: every failure leaves \<^verbatim>\<open>modelsDevData\<close> undefined.\<close>

definition modelsDevDataOf :: "ModelsDevAPI Reply \<Rightarrow> nat option \<Rightarrow> OpenCode option" where
  "modelsDevDataOf r timeoutMs =
     (case timeoutMs of
        Some t \<Rightarrow>
          (case fetchWithTimeout r t of
             None \<Rightarrow> None
           | Some None \<Rightarrow> None
           | Some (Some d) \<Rightarrow> opencode d)
      | None \<Rightarrow>
          (case r of
             Rejected \<Rightarrow> None
           | Reply t ok body \<Rightarrow>
               if ok then (case body of None \<Rightarrow> None | Some d \<Rightarrow> opencode d) else None))"

definition fetchFreshModels ::
  "bool \<Rightarrow> nat option \<Rightarrow> Env \<Rightarrow> state \<Rightarrow> ModelConfig list option \<times> state" where
  "fetchFreshModels hasApiKey timeoutMs env s =
     (case zenModelIdsOf (zen env) timeoutMs of
        None \<Rightarrow> (None, s)
      | Some zenModelIds \<Rightarrow>
          (let s1 = saveZenModelsToCache zenModelIds s;
               modelsDevData = modelsDevDataOf (modelsDev env) timeoutMs;
               (ms, s2) = buildModels zenModelIds modelsDevData hasApiKey s1
           in (Some ms, s2)))"

section \<open>Registry publisher and dispatch\<close>

text \<open>
  \<^verbatim>\<open>MODEL_MAP\<close> is a JavaScript \<^verbatim>\<open>Map\<close>: it keeps its keys in the order of their first
  insertion, and \<^verbatim>\<open>set\<close> on a key already present replaces the value in place.
\<close>

fun Map_set :: "(string \<times> 'v) list \<Rightarrow> string \<Rightarrow> 'v \<Rightarrow> (string \<times> 'v) list" where
  "Map_set [] k v = [(k, v)]"
| "Map_set ((k', v') # kvs) k v =
     (if k' = k then (k, v) # kvs else (k', v') # Map_set kvs k v)"

definition Map_get :: "(string \<times> 'v) list \<Rightarrow> string \<Rightarrow> 'v option" where
  "Map_get mp k = map_of mp k"

definition Map_values :: "(string \<times> 'v) list \<Rightarrow> 'v list" where
  "Map_values mp = map snd mp"

definition Map_keys :: "(string \<times> 'v) list \<Rightarrow> string list" where
  "Map_keys mp = map fst mp"

fun setModels :: "ModelConfig list \<Rightarrow> (string \<times> ModelConfig) list \<Rightarrow> (string \<times> ModelConfig) list" where
  "setModels [] mp = mp"
| "setModels (model # rest) mp = setModels rest (Map_set mp (mc_id model) model)"

definition providerModel :: "ModelConfig \<Rightarrow> ProviderModel" where
  "providerModel m =
     \<lparr> pm_id = mc_id m, pm_name = mc_name m, pm_reasoning = mc_reasoning m,
       pm_input = mc_input m, pm_cost = mc_cost m,
       pm_contextWindow = mc_contextWindow m, pm_maxTokens = mc_maxTokens m \<rparr>"

definition registerModels :: "ModelConfig list \<Rightarrow> state \<Rightarrow> state" where
  "registerModels ms s =
     s\<lparr>MODEL_MAP := setModels ms [], registered := Some (map providerModel ms)\<rparr>"

datatype StreamFn =
  streamSimpleAnthropic | streamSimpleOpenAIResponses | streamSimpleGoogle
  | streamSimpleOpenAICompletions

fun getStreamFunction :: "Backend \<Rightarrow> StreamFn" where
  "getStreamFunction Anthropic = streamSimpleAnthropic"
| "getStreamFunction OpenAIResponses = streamSimpleOpenAIResponses"
| "getStreamFunction Google = streamSimpleGoogle"
| "getStreamFunction OpenAICompletions = streamSimpleOpenAICompletions"

text \<open>The members of the requested \<^verbatim>\<open>Model\<close> that the dispatch reads.\<close>

record Model =
  model_id :: string
  model_api :: string
  model_provider :: string

record UsageCost =
  uc_input :: number
  uc_output :: number
  uc_cacheRead :: number
  uc_cacheWrite :: number
  uc_total :: number

record Usage =
  u_input :: number
  u_output :: number
  u_cacheRead :: number
  u_cacheWrite :: number
  u_totalTokens :: number
  u_cost :: UsageCost

record AssistantError =
  err_role :: string
  err_content :: "string list"
  err_api :: string
  err_provider :: string
  err_model :: string
  err_usage :: Usage
  err_stopReason :: string
  err_errorMessage :: string
  err_timestamp :: nat

text \<open>
  The events of the returned stream: those forwarded from the backend's stream (of a type
  the engine does not look into) and the error event built in the \<^verbatim>\<open>catch\<close> block.
\<close>

datatype 'e Event = Forwarded 'e | ErrorEvent string AssistantError

record 'e Stream =
  events :: "'e Event list"
  ended :: bool

definition errorEvent :: "Model \<Rightarrow> string \<Rightarrow> nat \<Rightarrow> 'e Event" where
  "errorEvent model message now =
     ErrorEvent ''error''
       \<lparr> err_role = ''assistant'', err_content = [],
         err_api = model_api model, err_provider = model_provider model,
         err_model = model_id model,
         err_usage = \<lparr> u_input = Num 0, u_output = Num 0, u_cacheRead = Num 0,
                       u_cacheWrite = Num 0, u_totalTokens = Num 0,
                       u_cost = \<lparr> uc_input = Num 0, uc_output = Num 0, uc_cacheRead = Num 0,
                                  uc_cacheWrite = Num 0, uc_total = Num 0 \<rparr> \<rparr>,
         err_stopReason = ''error'', err_errorMessage = message, err_timestamp = now \<rparr>"

definition ZEN_BASE_URL :: string where
  "ZEN_BASE_URL = ''https://opencode.ai/zen/v1''"

text \<open>The truthiness of an optional string: \<^verbatim>\<open>Boolean(apiKey)\<close>, \<^verbatim>\<open>!apiKey\<close>.\<close>

definition truthy :: "string option \<Rightarrow> bool" where
  "truthy k = (k \<noteq> None \<and> k \<noteq> Some [])"

text \<open>
  The body of the \<^verbatim>\<open>try\<close> block of \<^verbatim>\<open>streamOpenCodeZen\<close>: what it throws, or the stream
  function it called together with the events that function's stream yielded and the
  exception, if any, that ended the iteration. \<open>backends\<close> stands for the four imported
  stream functions, called with the model, the base URL and the API key of the options.
\<close>

definition tryDispatch ::
  "(string \<times> ModelConfig) list \<Rightarrow> Model \<Rightarrow> string option \<Rightarrow>
   (StreamFn \<Rightarrow> Model \<Rightarrow> string \<Rightarrow> string option \<Rightarrow> 'e list \<times> string option) \<Rightarrow>
   string + (StreamFn \<times> 'e list \<times> string option)" where
  "tryDispatch mp model apiKey backends =
     (case Map_get mp (model_id model) of
        None \<Rightarrow> Inl (''Unknown model: '' @ model_id model)
      | Some cfg \<Rightarrow>
          (let isFree = isFreeModel cfg in
           if \<not> truthy apiKey \<and> \<not> isFree
           then Inl ''No OpenCode API key. Set OPENCODE_API_KEY env var. (This model requires an API key.)''
           else (let streamFn = getStreamFunction (mc_backend cfg);
                     (evs, thrown) = backends streamFn model ZEN_BASE_URL apiKey
                 in Inr (streamFn, evs, thrown))))"

text \<open>
  \<^verbatim>\<open>streamOpenCodeZen\<close>: the stream it returns once the asynchronous body has run, and
  the stream function that was called, if one was.
\<close>

definition streamOpenCodeZen ::
  "(string \<times> ModelConfig) list \<Rightarrow> Model \<Rightarrow> string option \<Rightarrow>
   (StreamFn \<Rightarrow> Model \<Rightarrow> string \<Rightarrow> string option \<Rightarrow> 'e list \<times> string option) \<Rightarrow> nat \<Rightarrow>
   'e Stream \<times> StreamFn option" where
  "streamOpenCodeZen mp model apiKey backends now =
     (case tryDispatch mp model apiKey backends of
        Inl message \<Rightarrow> (\<lparr> events = [errorEvent model message now], ended = True \<rparr>, None)
      | Inr (streamFn, evs, None) \<Rightarrow>
          (\<lparr> events = map Forwarded evs, ended = True \<rparr>, Some streamFn)
      | Inr (streamFn, evs, Some message) \<Rightarrow>
          (\<lparr> events = map Forwarded evs @ [errorEvent model message now], ended = True \<rparr>,
           Some streamFn))"

section \<open>Change tracker and synchronization controller\<close>

text \<open>The two \<^verbatim>\<open>filter\<close> calls that compute \<^verbatim>\<open>added\<close> and \<^verbatim>\<open>removed\<close>.\<close>

definition freeModelChanges :: "string list \<Rightarrow> string list \<Rightarrow> string list \<times> string list" where
  "freeModelChanges previousFreeIds currentFreeIds =
     (filter (\<lambda>i. i \<notin> set previousFreeIds) currentFreeIds,
      filter (\<lambda>i. i \<notin> set currentFreeIds) previousFreeIds)"

definition freeIdsOf :: "ModelConfig list \<Rightarrow> string list" where
  "freeIdsOf ms = map mc_id (filter isFreeModel ms)"

text \<open>
  The tail of the exported function, from the comparison with the previous session on: the
  pending notification stands for the two handlers that show it once.
\<close>

definition trackFreeModelChanges :: "string list \<Rightarrow> Env \<Rightarrow> state \<Rightarrow> state" where
  "trackFreeModelChanges previousFreeIds env s =
     (let currentFreeIds = freeIdsOf (Map_values (MODEL_MAP s));
          (added, removed) = freeModelChanges previousFreeIds currentFreeIds;
          hasFreeModelChanges = (length added > 0 \<or> length removed > 0)
      in if hasFreeModelChanges \<and> notifySetting env = ''on''
         then s\<lparr>notification := Some (added, removed)\<rparr>
         else s)"

definition COLD_START_TIMEOUT_MS :: nat where
  "COLD_START_TIMEOUT_MS = 3000"

definition noModelsMessage :: string where
  "noModelsMessage =
     ''OpenCode Zen: no cached models and fetch failed/timed out. Provider not registered.''"

text \<open>
  The two branches of the exported function, each followed by the comparison with the
  previous session: the fast path registers the cached models and starts the background
  refresh, the cold start waits for a fetch under the deadline.
\<close>

definition fastPath :: "ModelConfig list \<Rightarrow> bool \<Rightarrow> string list \<Rightarrow> Env \<Rightarrow> state \<Rightarrow> state" where
  "fastPath cachedModels hasApiKey previousFreeIds env s =
     (let ms = (if hasApiKey then cachedModels else filter isFreeModel cachedModels);
          s1 = registerModels ms s
      in trackFreeModelChanges previousFreeIds env s1)"

definition coldStart :: "bool \<Rightarrow> string list \<Rightarrow> Env \<Rightarrow> state \<Rightarrow> state" where
  "coldStart hasApiKey previousFreeIds env s =
     (let (fresh, s1) = fetchFreshModels hasApiKey (Some COLD_START_TIMEOUT_MS) env s
      in case fresh of
           None \<Rightarrow> s1\<lparr>console := console s1 @ [noModelsMessage]\<rparr>
         | Some ms \<Rightarrow>
             if length ms = 0
             then s1\<lparr>console := console s1 @ [noModelsMessage]\<rparr>
             else (let s2 = registerModels ms s1;
                       s3 = saveFreeModelIds (freeIdsOf ms) s2
                   in trackFreeModelChanges previousFreeIds env s3))"

text \<open>
  The exported function up to its return: the state it leaves, and whether it has started
  the background refresh, whose continuation runs later.
\<close>

definition activate :: "Env \<Rightarrow> state \<Rightarrow> state \<times> bool" where
  "activate env s =
     (let hasApiKey = truthy (OPENCODE_API_KEY env);
          previousFreeIds = loadFreeModelIds s
      in case loadModelsFromCache s of
           Some cachedModels \<Rightarrow>
             if length cachedModels > 0
             then (fastPath cachedModels hasApiKey previousFreeIds env s, True)
             else (coldStart hasApiKey previousFreeIds env s, False)
         | None \<Rightarrow> (coldStart hasApiKey previousFreeIds env s, False))"

text \<open>The background refresh of the fast path: \<^verbatim>\<open>fetchFreshModels(hasApiKey).then(...)\<close>.\<close>

definition backgroundRefresh :: "Env \<Rightarrow> state \<Rightarrow> state" where
  "backgroundRefresh env s =
     (let (freshModels, s1) = fetchFreshModels (truthy (OPENCODE_API_KEY env)) None env s
      in case freshModels of
           None \<Rightarrow> s1
         | Some ms \<Rightarrow>
             if length ms = 0 then s1
             else saveFreeModelIds (freeIdsOf ms) (registerModels ms s1))"

text \<open>A whole run: the exported function, then the background refresh if one was started.\<close>

definition run :: "Env \<Rightarrow> state \<Rightarrow> state" where
  "run env s = (case activate env s of (s1, refreshing) \<Rightarrow>
     if refreshing then backgroundRefresh env s1 else s1)"

text \<open>The state of a fresh process over a given cache directory.\<close>

definition processStart ::
  "string list option \<Rightarrow> ModelConfig list option \<Rightarrow> string list option \<Rightarrow>
   (CacheFile \<Rightarrow> bool) \<Rightarrow> state" where
  "processStart zenFile modelsFile freeFile w =
     \<lparr> zen_models_file = zenFile, models_file = modelsFile, free_ids_file = freeFile,
       writable = w, written = [], console = [], MODEL_MAP = [], registered = None,
       notification = None \<rparr>"

section \<open>Predicates of the statements and sample inputs\<close>

text \<open>
  The enrichment entries found for the given ids are filed under their own id: the entry's
  \<^verbatim>\<open>id\<close> member is empty or equals the key it was looked up with.
\<close>

definition idsAgree :: "OpenCode option \<Rightarrow> string list \<Rightarrow> bool" where
  "idsAgree d ids =
     list_all (\<lambda>i. case devModelOf d i of None \<Rightarrow> True | Some e \<Rightarrow> dev_id e = [] \<or> dev_id e = i) ids"

text \<open>
  The backend as the specification words it, to be compared with
  \<open>getBackendFromNpmPackage\<close>: the entry's routing hint, or the provider-level default
  when the entry omits one (an empty hint counts as omitted), is matched exactly against
  the four known hint values, and anything else gives the generic default backend.
\<close>

definition hintBackend_spec :: "string \<Rightarrow> Backend" where
  "hintBackend_spec h =
     (if h = ''@ai-sdk/anthropic'' then Anthropic
      else if h = ''@ai-sdk/openai'' then OpenAIResponses
      else if h = ''@ai-sdk/google'' then Google
      else if h = ''@ai-sdk/openai-compatible'' then OpenAICompletions
      else OpenAICompletions)"

definition backend_spec :: "string option \<Rightarrow> string option \<Rightarrow> Backend" where
  "backend_spec hint providerDefault =
     (case (if truthy hint then hint else providerDefault) of
        None \<Rightarrow> OpenAICompletions
      | Some h \<Rightarrow> hintBackend_spec h)"

text \<open>
  The cached authoritative id list, and the consistency of the two cache records: every
  record of the enriched-registry file has its id in the authoritative-list file.
\<close>

definition cachedIds :: "state \<Rightarrow> string list" where
  "cachedIds s = (case zen_models_file s of None \<Rightarrow> [] | Some ids \<Rightarrow> ids)"

definition cacheConsistent :: "state \<Rightarrow> bool" where
  "cacheConsistent s =
     (case models_file s of
        None \<Rightarrow> True
      | Some ms \<Rightarrow> list_all (\<lambda>m. mc_id m \<in> set (cachedIds s)) ms)"

text \<open>
  The enrichment of a run agrees with the ids of its authoritative fetch, under the given
  deadline (see \<open>idsAgree\<close>); nothing is asked when the authoritative fetch fails.
\<close>

definition enrichmentAgrees :: "Env \<Rightarrow> nat option \<Rightarrow> bool" where
  "enrichmentAgrees env timeoutMs =
     (case zenModelIdsOf (zen env) timeoutMs of
        None \<Rightarrow> True
      | Some ids \<Rightarrow> idsAgree (modelsDevDataOf (modelsDev env) timeoutMs) ids)"

text \<open>
  A number member that holds a finite number, a \<^verbatim>\<open>ModelConfig\<close> whose six number members
  do, and an enrichment whose entries for the given ids give only finite numbers where
  they give one.
\<close>

definition finiteNumber :: "number option \<Rightarrow> bool" where
  "finiteNumber x = (case x of Some (Num r) \<Rightarrow> True | _ \<Rightarrow> False)"

definition finiteModel :: "ModelConfig \<Rightarrow> bool" where
  "finiteModel m =
     (finiteNumber (cost_input (mc_cost m)) \<and> finiteNumber (cost_output (mc_cost m))
      \<and> finiteNumber (cost_cacheRead (mc_cost m)) \<and> finiteNumber (cost_cacheWrite (mc_cost m))
      \<and> finiteNumber (mc_contextWindow m) \<and> finiteNumber (mc_maxTokens m))"

definition finiteOrAbsent :: "number option \<Rightarrow> bool" where
  "finiteOrAbsent x = (case x of None \<Rightarrow> True | Some (Num r) \<Rightarrow> True | _ \<Rightarrow> False)"

definition finiteEntry :: "DevModel \<Rightarrow> bool" where
  "finiteEntry e =
     ((case dev_cost e of
         None \<Rightarrow> True
       | Some c \<Rightarrow> finiteOrAbsent (dc_input c) \<and> finiteOrAbsent (dc_output c)
                  \<and> finiteOrAbsent (dc_cache_read c) \<and> finiteOrAbsent (dc_cache_write c))
      \<and> (case dev_limit e of
            None \<Rightarrow> True
          | Some l \<Rightarrow> finiteOrAbsent (lim_context l) \<and> finiteOrAbsent (lim_output l)))"

definition finiteEnrichment :: "OpenCode option \<Rightarrow> string list \<Rightarrow> bool" where
  "finiteEnrichment d ids =
     list_all (\<lambda>i. case devModelOf d i of None \<Rightarrow> True | Some e \<Rightarrow> finiteEntry e) ids"

text \<open>
  An enrichment entry filed under a key that is not its id, a paid one, a free one with a
  routing hint of its own, and one whose context limit was the literal \<^verbatim>\<open>1e999\<close>.
\<close>

definition hintedEntry :: DevModel where
  "hintedEntry =
     \<lparr> dev_id = ''m1'', dev_name = ''Model One'', dev_cost = None, dev_limit = None,
       dev_reasoning = None, dev_attachment = None, dev_tool_call = None,
       dev_modalities = None,
       dev_provider = Some \<lparr> npm = Some ''@ai-sdk/google'', api = None \<rparr> \<rparr>"

definition hugeEntry :: DevModel where
  "hugeEntry =
     \<lparr> dev_id = ''m1'', dev_name = ''Model One'', dev_cost = None,
       dev_limit = Some \<lparr> lim_context = Some PosInfinity, lim_output = None \<rparr>,
       dev_reasoning = None, dev_attachment = None, dev_tool_call = None,
       dev_modalities = None, dev_provider = None \<rparr>"


definition renamedEntry :: DevModel where
  "renamedEntry =
     \<lparr> dev_id = ''other'', dev_name = ''Other'', dev_cost = None, dev_limit = None,
       dev_reasoning = None, dev_attachment = None, dev_tool_call = None,
       dev_modalities = None, dev_provider = None \<rparr>"

definition paidEntry :: DevModel where
  "paidEntry =
     \<lparr> dev_id = ''m1'', dev_name = ''Model One'',
       dev_cost = Some \<lparr> dc_input = Some (Num 0.01), dc_output = Some (Num 0.03),
                         dc_cache_read = None, dc_cache_write = None \<rparr>,
       dev_limit = None, dev_reasoning = None, dev_attachment = None, dev_tool_call = None,
       dev_modalities = None, dev_provider = None \<rparr>"

text \<open>An enrichment document with one entry and a provider-level default hint.\<close>

definition enrichmentOf :: "string \<Rightarrow> DevModel \<Rightarrow> string option \<Rightarrow> OpenCode" where
  "enrichmentOf k e hint =
     \<lparr> models = Some [k \<mapsto> e], provider = Some \<lparr> npm = hint, api = None \<rparr> \<rparr>"

text \<open>A fresh process over an empty cache directory in which every write succeeds.\<close>

definition emptyCache :: state where
  "emptyCache = processStart None None None (\<lambda>f. True)"

text \<open>Sample answers of the two endpoints, and sample cache directories.\<close>

definition zenEntry :: "string \<Rightarrow> ZenModel" where
  "zenEntry i = \<lparr> zm_id = i, zm_object = ''model'', zm_created = Num 0, zm_owned_by = ''opencode'' \<rparr>"

definition sampleEnv :: "ZenData Reply \<Rightarrow> OpenCode option \<Rightarrow> Env" where
  "sampleEnv zenReply enrichment =
     \<lparr> zen = zenReply,
       modelsDev = Reply 0 True (Some \<lparr> opencode = enrichment \<rparr>),
       OPENCODE_API_KEY = None, notifySetting = ''on'' \<rparr>"

text \<open>Zen lists \<^verbatim>\<open>m1\<close>, which the enrichment prices; no API key is configured.\<close>

definition paidEnv :: Env where
  "paidEnv =
     sampleEnv (Reply 0 True (Some (DataArray [zenEntry ''m1''])))
       (Some (enrichmentOf ''m1'' paidEntry None))"

definition offlineEnv :: Env where
  "offlineEnv =
     \<lparr> zen = Rejected, modelsDev = Rejected, OPENCODE_API_KEY = None, notifySetting = ''on'' \<rparr>"

text \<open>A cache directory left by a run that saw the free model \<^verbatim>\<open>m2\<close> only.\<close>

definition warmCache :: state where
  "warmCache = processStart (Some [''m2'']) (Some [defaults ''m2'']) (Some [''m2'']) (\<lambda>f. True)"

text \<open>A published registry with the paid \<^verbatim>\<open>m1\<close> and the free \<^verbatim>\<open>m2\<close>, and a request.\<close>

definition sampleMap :: "(string \<times> ModelConfig) list" where
  "sampleMap =
     setModels [modelFor (Some (enrichmentOf ''m1'' paidEntry None)) ''m1'', defaults ''m2''] []"

definition request :: "string \<Rightarrow> Model" where
  "request i = \<lparr> model_id = i, model_api = ''opencode-api'', model_provider = ''opencode'' \<rparr>"

definition quietBackends :: "StreamFn \<Rightarrow> Model \<Rightarrow> string \<Rightarrow> string option \<Rightarrow> unit list \<times> string option" where
  "quietBackends streamFn model baseUrl apiKey = ([], None)"

text \<open>
  A cache directory whose enriched registry holds \<^verbatim>\<open>m2\<close> while its authoritative list
  holds \<^verbatim>\<open>m1\<close>; a Zen that lists \<^verbatim>\<open>m1\<close> with an enrichment entry that names itself
  \<^verbatim>\<open>other\<close>; and a Zen that lists the paid \<^verbatim>\<open>m1\<close> and the unknown \<^verbatim>\<open>m2\<close>.
\<close>

definition staleCache :: state where
  "staleCache = processStart (Some [''m1'']) (Some [defaults ''m2'']) None (\<lambda>f. True)"

definition renamedEnv :: Env where
  "renamedEnv =
     sampleEnv (Reply 0 True (Some (DataArray [zenEntry ''m1''])))
       (Some (enrichmentOf ''m1'' renamedEntry None))"

definition mixedEnv :: Env where
  "mixedEnv =
     sampleEnv (Reply 0 True (Some (DataArray [zenEntry ''m1'', zenEntry ''m2''])))
       (Some (enrichmentOf ''m1'' paidEntry None))"

section \<open>Basic facts\<close>

lemmas merge_defs = modelFor_def devModelOf_def ownEntry_def inheritedMember_def
  inheritedName_def enriched_def defaults_def isFreeModel_def nullish_def or_else_def
  entryHint_def providerDefaultNpm_def getBackendFromNpmPackage_def

lemma pushModels_map:
  "pushModels d ids acc = acc @ map (modelFor d) ids"
  by (induction ids arbitrary: acc) simp_all

lemma buildModels_fst:
  "fst (buildModels ids d k s) =
     (if k then map (modelFor d) ids else filter isFreeModel (map (modelFor d) ids))"
  by (simp add: buildModels_def Let_def pushModels_map)

lemma buildModels_snd:
  "snd (buildModels ids d k s) = saveModelsToCache (map (modelFor d) ids) s"
  by (simp add: buildModels_def Let_def pushModels_map)

lemma modelFor_None:
  "devModelOf d i = None \<Longrightarrow> modelFor d i = defaults i"
  by (simp add: modelFor_def)

lemma isFreeModel_defaults: "isFreeModel (defaults i)"
  by (simp add: isFreeModel_def defaults_def)

lemma devModelOf_None: "devModelOf None i = None"
  by (simp add: devModelOf_def)

lemma modelFor_id:
  "mc_id (modelFor d i) = (case devModelOf d i of None \<Rightarrow> i | Some e \<Rightarrow> or_else (dev_id e) i)"
  by (simp add: modelFor_def defaults_def enriched_def Let_def split: option.splits)

lemma idsAgree_map:
  "idsAgree d ids \<Longrightarrow> map mc_id (map (modelFor d) ids) = ids"
  by (induction ids) (auto simp: idsAgree_def modelFor_id or_else_def split: option.splits)

lemma filter_map_ids:
  "idsAgree d ids \<Longrightarrow>
   map mc_id (filter P (map (modelFor d) ids)) = filter (\<lambda>i. P (modelFor d i)) ids"
  by (induction ids) (auto simp: idsAgree_def modelFor_id or_else_def split: option.splits)

lemma getBackend_refines: "getBackendFromNpmPackage hint dflt = backend_spec hint dflt"
  by (cases hint; cases dflt)
     (auto simp: getBackendFromNpmPackage_def backend_spec_def hintBackend_spec_def truthy_def)

lemma modelFor_backend:
  "devModelOf d i = Some e \<Longrightarrow>
   mc_backend (modelFor d i) = getBackendFromNpmPackage (entryHint e) (providerDefaultNpm d)"
  by (simp add: modelFor_def enriched_def Let_def)

lemma validModels_iff:
  "validModels ms = list_all (\<lambda>m. mc_id m \<noteq> [] \<and> mc_name m \<noteq> []) ms"
  by (induction ms) auto

lemma stringified_names:
  "mc_id (stringified m) = mc_id m"
  "mc_name (stringified m) = mc_name m"
  by (simp_all add: stringified_def)

lemma validModels_stringified: "validModels (map stringified ms) = validModels ms"
  by (induction ms) (simp_all add: stringified_names)

lemma load_after_save:
  "writable s MODELS_CACHE_FILE \<Longrightarrow>
   loadModelsFromCache (saveModelsToCache ms s)
     = (if ms \<noteq> [] \<and> validModels ms then Some (map stringified ms) else None)"
  by (simp add: loadModelsFromCache_def saveModelsToCache_def validModels_stringified)

lemma jsonNumber_finite: "finiteNumber x \<Longrightarrow> jsonNumber x = x"
  by (auto simp: finiteNumber_def jsonNumber_def split: option.splits number.splits)

lemma stringified_finite: "finiteModel m \<Longrightarrow> stringified m = m"
  by (simp add: finiteModel_def stringified_def jsonNumber_finite)

lemma map_stringified_finite: "list_all finiteModel ms \<Longrightarrow> map stringified ms = ms"
  by (induction ms) (simp_all add: stringified_finite)

lemma finiteNumber_nullish:
  "finiteOrAbsent x \<Longrightarrow> finiteNumber (Some (nullish x (Num r)))"
  by (auto simp: finiteOrAbsent_def finiteNumber_def nullish_def
        split: option.splits number.splits)

lemma finiteModel_defaults: "finiteModel (defaults i)"
  by (simp add: finiteModel_def finiteNumber_def defaults_def)

lemma finiteModel_enriched: "finiteEntry e \<Longrightarrow> finiteModel (enriched e dflt i)"
  by (auto simp: finiteEntry_def finiteModel_def enriched_def Let_def finiteNumber_nullish
        split: option.splits)
    (simp_all add: finiteNumber_def nullish_def)

lemma finiteModel_merged:
  "finiteEnrichment d ids \<Longrightarrow> list_all finiteModel (map (modelFor d) ids)"
  by (induction ids)
     (auto simp: finiteEnrichment_def modelFor_def finiteModel_defaults finiteModel_enriched
        split: option.splits)

lemma modelFor_named:
  "i \<noteq> [] \<Longrightarrow> mc_id (modelFor d i) \<noteq> [] \<and> mc_name (modelFor d i) \<noteq> []"
  by (simp add: modelFor_def defaults_def enriched_def Let_def or_else_def split: option.splits)

lemma validModels_merged:
  "[] \<notin> set ids \<Longrightarrow> validModels (map (modelFor d) ids)"
  by (induction ids) (auto simp: modelFor_named)


lemma fetchFreshModels_eq:
  "fetchFreshModels k t env s =
     (case zenModelIdsOf (zen env) t of
        None \<Rightarrow> (None, s)
      | Some ids \<Rightarrow>
          (Some (fst (buildModels ids (modelsDevDataOf (modelsDev env) t) k s)),
           saveModelsToCache (map (modelFor (modelsDevDataOf (modelsDev env) t)) ids)
             (saveZenModelsToCache ids s)))"
  by (simp add: fetchFreshModels_def buildModels_def Let_def pushModels_map split: option.splits)

lemmas save_defs = saveModelsToCache_def saveZenModelsToCache_def saveFreeModelIds_def

lemma fetchFreshModels_frame:
  "MODEL_MAP (snd (fetchFreshModels k t env s)) = MODEL_MAP s"
  "registered (snd (fetchFreshModels k t env s)) = registered s"
  "free_ids_file (snd (fetchFreshModels k t env s)) = free_ids_file s"
  "notification (snd (fetchFreshModels k t env s)) = notification s"
  "writable (snd (fetchFreshModels k t env s)) = writable s"
  by (simp_all add: fetchFreshModels_eq save_defs split: option.splits)

lemma fetchFreshModels_no_free_write:
  "filter (\<lambda>f. f = FREE_MODEL_IDS_FILE) (written (snd (fetchFreshModels k t env s)))
     = filter (\<lambda>f. f = FREE_MODEL_IDS_FILE) (written s)"
  by (simp add: fetchFreshModels_eq save_defs split: option.splits)

lemma trackFreeModelChanges_frame:
  "MODEL_MAP (trackFreeModelChanges p env s) = MODEL_MAP s"
  "registered (trackFreeModelChanges p env s) = registered s"
  "free_ids_file (trackFreeModelChanges p env s) = free_ids_file s"
  "zen_models_file (trackFreeModelChanges p env s) = zen_models_file s"
  "models_file (trackFreeModelChanges p env s) = models_file s"
  "written (trackFreeModelChanges p env s) = written s"
  "console (trackFreeModelChanges p env s) = console s"
  "writable (trackFreeModelChanges p env s) = writable s"
  by (simp_all add: trackFreeModelChanges_def Let_def split: prod.splits)

lemma registerModels_frame:
  "MODEL_MAP (registerModels ms s) = setModels ms []"
  "free_ids_file (registerModels ms s) = free_ids_file s"
  "zen_models_file (registerModels ms s) = zen_models_file s"
  "models_file (registerModels ms s) = models_file s"
  "written (registerModels ms s) = written s"
  "console (registerModels ms s) = console s"
  "writable (registerModels ms s) = writable s"
  by (simp_all add: registerModels_def)

lemma coldStart_abandon:
  assumes "fst (fetchFreshModels k (Some COLD_START_TIMEOUT_MS) env s) = None
           \<or> fst (fetchFreshModels k (Some COLD_START_TIMEOUT_MS) env s) = Some []"
  shows "coldStart k p env s =
     (snd (fetchFreshModels k (Some COLD_START_TIMEOUT_MS) env s))
       \<lparr>console := console (snd (fetchFreshModels k (Some COLD_START_TIMEOUT_MS) env s))
                     @ [noModelsMessage]\<rparr>"
  using assms by (auto simp: coldStart_def split: prod.splits option.splits)

lemma activate_cold:
  "loadModelsFromCache s = None \<Longrightarrow>
   activate env s = (coldStart (truthy (OPENCODE_API_KEY env)) (loadFreeModelIds s) env s, False)"
  by (simp add: activate_def Let_def)

lemma loadModelsFromCache_nonempty:
  "loadModelsFromCache s = Some cm \<Longrightarrow> cm \<noteq> []"
  by (auto simp: loadModelsFromCache_def split: option.splits if_splits)

lemma activate_warm:
  "loadModelsFromCache s = Some cm \<Longrightarrow>
   activate env s = (fastPath cm (truthy (OPENCODE_API_KEY env)) (loadFreeModelIds s) env s, True)"
  by (frule loadModelsFromCache_nonempty) (simp add: activate_def Let_def)

lemma filter_none_free:
  "list_all (\<lambda>m. \<not> isFreeModel m) ms \<Longrightarrow> filter isFreeModel ms = []"
  by (induction ms) auto

lemma Map_keys_Map_set_list:
  "Map_keys (Map_set mp k v)
     = (if k \<in> set (Map_keys mp) then Map_keys mp else Map_keys mp @ [k])"
  by (induction mp) (force simp: Map_keys_def)+

lemma Map_keys_Map_set:
  "set (Map_keys (Map_set mp k v)) = insert k (set (Map_keys mp))"
  by (auto simp: Map_keys_Map_set_list)

lemma Map_keys_setModels:
  "set (Map_keys (setModels ms mp)) = set (Map_keys mp) \<union> mc_id ` set ms"
  by (induction ms arbitrary: mp) (auto simp: Map_keys_Map_set)

lemma Map_keys_Nil: "Map_keys [] = []"
  by (simp add: Map_keys_def)

lemma Map_keys_registerModels:
  "set (Map_keys (MODEL_MAP (registerModels ms s))) = mc_id ` set ms"
  by (simp add: registerModels_def Map_keys_setModels Map_keys_Nil)

lemma fastPath_MODEL_MAP:
  "MODEL_MAP (fastPath cm k p env s) = setModels (if k then cm else filter isFreeModel cm) []"
  by (simp add: fastPath_def Let_def trackFreeModelChanges_frame registerModels_frame)

lemma fastPath_files:
  "zen_models_file (fastPath cm k p env s) = zen_models_file s"
  "models_file (fastPath cm k p env s) = models_file s"
  "free_ids_file (fastPath cm k p env s) = free_ids_file s"
  "written (fastPath cm k p env s) = written s"
  "writable (fastPath cm k p env s) = writable s"
  "console (fastPath cm k p env s) = console s"
  by (simp_all add: fastPath_def Let_def trackFreeModelChanges_frame registerModels_frame)

lemma loadModelsFromCache_file:
  "loadModelsFromCache s = Some cm \<Longrightarrow> models_file s = Some cm"
  by (auto simp: loadModelsFromCache_def split: option.splits if_splits)

lemma fresh_ids_within:
  assumes "fst (fetchFreshModels k t env s) = Some ms" and "enrichmentAgrees env t"
  shows "\<exists>ids. zenModelIdsOf (zen env) t = Some ids \<and> mc_id ` set ms \<subseteq> set ids"
proof (cases "zenModelIdsOf (zen env) t")
  case None
  with assms show ?thesis by (simp add: fetchFreshModels_eq)
next
  case (Some ids)
  let ?d = "modelsDevDataOf (modelsDev env) t"
  from Some assms(2) have agree: "idsAgree ?d ids"
    by (simp add: enrichmentAgrees_def)
  from Some assms(1) have ms: "ms = fst (buildModels ids ?d k s)"
    by (simp add: fetchFreshModels_eq)
  have "set ms \<subseteq> set (map (modelFor ?d) ids)"
    unfolding ms by (auto simp: buildModels_fst)
  then have "mc_id ` set ms \<subseteq> set (map mc_id (map (modelFor ?d) ids))"
    by auto
  also have "\<dots> = set ids"
    using agree by (simp only: idsAgree_map)
  finally show ?thesis using Some by simp
qed

lemma backgroundRefresh_kept:
  assumes "fst (fetchFreshModels (truthy (OPENCODE_API_KEY env)) None env s) = None
         \<or> fst (fetchFreshModels (truthy (OPENCODE_API_KEY env)) None env s) = Some []"
  shows "backgroundRefresh env s = snd (fetchFreshModels (truthy (OPENCODE_API_KEY env)) None env s)"
  using assms by (auto simp: backgroundRefresh_def split: prod.splits)

lemma backgroundRefresh_published:
  assumes "fst (fetchFreshModels (truthy (OPENCODE_API_KEY env)) None env s) = Some ms" and "ms \<noteq> []"
  shows "backgroundRefresh env s
           = saveFreeModelIds (freeIdsOf ms)
               (registerModels ms (snd (fetchFreshModels (truthy (OPENCODE_API_KEY env)) None env s)))"
  using assms by (auto simp: backgroundRefresh_def split: prod.splits)

lemma saveFreeModelIds_frame:
  "MODEL_MAP (saveFreeModelIds ids s) = MODEL_MAP s"
  "registered (saveFreeModelIds ids s) = registered s"
  "zen_models_file (saveFreeModelIds ids s) = zen_models_file s"
  "models_file (saveFreeModelIds ids s) = models_file s"
  "writable (saveFreeModelIds ids s) = writable s"
  by (simp_all add: saveFreeModelIds_def)

lemma coldStart_published:
  assumes "fst (fetchFreshModels k (Some COLD_START_TIMEOUT_MS) env s) = Some ms" and "ms \<noteq> []"
  shows "coldStart k p env s
           = trackFreeModelChanges p env
               (saveFreeModelIds (freeIdsOf ms)
                 (registerModels ms (snd (fetchFreshModels k (Some COLD_START_TIMEOUT_MS) env s))))"
  using assms by (auto simp: coldStart_def Let_def split: prod.splits)

lemma fetchFreshModels_consistent:
  assumes "cacheConsistent s" and "enrichmentAgrees env t"
    and "writable s ZEN_MODELS_CACHE_FILE = writable s MODELS_CACHE_FILE"
  shows "cacheConsistent (snd (fetchFreshModels k t env s))"
proof (cases "zenModelIdsOf (zen env) t")
  case None
  with assms(1) show ?thesis by (simp add: fetchFreshModels_eq)
next
  case (Some ids)
  let ?d = "modelsDevDataOf (modelsDev env) t"
  from Some assms(2) have "idsAgree ?d ids"
    by (simp add: enrichmentAgrees_def)
  then have "map mc_id (map (modelFor ?d) ids) = ids"
    by (rule idsAgree_map)
  then have "set ids = mc_id ` set (map (modelFor ?d) ids)"
    by (metis list.set_map)
  then have "list_all (\<lambda>m. mc_id m \<in> set ids) (map stringified (map (modelFor ?d) ids))"
    by (auto simp: list_all_iff stringified_names)
  with Some assms(1,3) show ?thesis
    by (auto simp: fetchFreshModels_eq save_defs cacheConsistent_def cachedIds_def
          split: option.splits)
qed

lemma cacheConsistent_cong:
  "zen_models_file s' = zen_models_file s \<Longrightarrow> models_file s' = models_file s \<Longrightarrow>
   cacheConsistent s' = cacheConsistent s"
  by (simp add: cacheConsistent_def cachedIds_def split: option.splits)


lemma fetchFreshModels_fst_indep:
  "fst (fetchFreshModels k t env s) = fst (fetchFreshModels k t env s')"
  by (simp add: fetchFreshModels_eq buildModels_fst split: option.splits)

lemma fetchFreshModels_files_cong:
  assumes "zen_models_file s' = zen_models_file s" and "models_file s' = models_file s"
    and "writable s' = writable s"
  shows "zen_models_file (snd (fetchFreshModels k t env s')) = zen_models_file (snd (fetchFreshModels k t env s))"
    and "models_file (snd (fetchFreshModels k t env s')) = models_file (snd (fetchFreshModels k t env s))"
  using assms by (simp_all add: fetchFreshModels_eq save_defs split: option.splits)

lemma coldStart_cases:
  "(MODEL_MAP (coldStart k p env s) = MODEL_MAP s
    \<or> (\<exists>ms. fst (fetchFreshModels k (Some COLD_START_TIMEOUT_MS) env s) = Some ms
          \<and> set (Map_keys (MODEL_MAP (coldStart k p env s))) = mc_id ` set ms))
   \<and> zen_models_file (coldStart k p env s)
       = zen_models_file (snd (fetchFreshModels k (Some COLD_START_TIMEOUT_MS) env s))
   \<and> models_file (coldStart k p env s)
       = models_file (snd (fetchFreshModels k (Some COLD_START_TIMEOUT_MS) env s))"
proof (cases "fst (fetchFreshModels k (Some COLD_START_TIMEOUT_MS) env s) = None
           \<or> fst (fetchFreshModels k (Some COLD_START_TIMEOUT_MS) env s) = Some []")
  case True
  then show ?thesis
    by (simp add: coldStart_abandon fetchFreshModels_frame)
next
  case False
  then obtain ms where ms: "fst (fetchFreshModels k (Some COLD_START_TIMEOUT_MS) env s) = Some ms"
    and ne: "ms \<noteq> []"
    by auto
  show ?thesis
    unfolding coldStart_published [OF ms ne]
    using ms
    by (simp add: trackFreeModelChanges_frame saveFreeModelIds_frame registerModels_frame
          Map_keys_setModels Map_keys_Nil)
qed

lemma backgroundRefresh_cases:
  "((fst (fetchFreshModels (truthy (OPENCODE_API_KEY env)) None env s) = None
      \<or> fst (fetchFreshModels (truthy (OPENCODE_API_KEY env)) None env s) = Some [])
     \<and> MODEL_MAP (backgroundRefresh env s) = MODEL_MAP s
    \<or> (\<exists>ms. fst (fetchFreshModels (truthy (OPENCODE_API_KEY env)) None env s) = Some ms
          \<and> ms \<noteq> []
          \<and> set (Map_keys (MODEL_MAP (backgroundRefresh env s))) = mc_id ` set ms))
   \<and> zen_models_file (backgroundRefresh env s)
       = zen_models_file (snd (fetchFreshModels (truthy (OPENCODE_API_KEY env)) None env s))
   \<and> models_file (backgroundRefresh env s)
       = models_file (snd (fetchFreshModels (truthy (OPENCODE_API_KEY env)) None env s))"
proof (cases "fst (fetchFreshModels (truthy (OPENCODE_API_KEY env)) None env s) = None
           \<or> fst (fetchFreshModels (truthy (OPENCODE_API_KEY env)) None env s) = Some []")
  case True
  then show ?thesis
    by (simp add: backgroundRefresh_kept fetchFreshModels_frame)
next
  case False
  then obtain ms where ms: "fst (fetchFreshModels (truthy (OPENCODE_API_KEY env)) None env s) = Some ms"
    and ne: "ms \<noteq> []"
    by auto
  show ?thesis
    unfolding backgroundRefresh_published [OF ms ne]
    using ms ne
    by (simp add: saveFreeModelIds_frame registerModels_frame Map_keys_setModels Map_keys_Nil)
qed

lemmas run_defs = run_def activate_def fastPath_def coldStart_def backgroundRefresh_def
  fetchFreshModels_def zenModelIdsOf_def modelsDevDataOf_def fetchZenModels_def
  fetchWithTimeout_def buildModels_def registerModels_def trackFreeModelChanges_def
  freeModelChanges_def freeIdsOf_def loadModelsFromCache_def loadFreeModelIds_def
  save_defs processStart_def truthy_def COLD_START_TIMEOUT_MS_def Map_keys_def Map_values_def
  sampleEnv_def zenEntry_def enrichmentOf_def Let_def

section \<open>The merged registry and the authoritative ids\<close>

text \<open>
  C1, as the code has it. The claim that the registry built by \<^verbatim>\<open>buildModels\<close> carries
  exactly the input ids, in the input order, fails in two ways: a record takes the
  \<^verbatim>\<open>id\<close> member of its enrichment entry when that is not empty, whatever key the entry
  was found under, and without an API key the paid records are filtered out of the result.
\<close>

theorem C1_counterexample:
  "map mc_id (fst (buildModels [''m1''] (Some (enrichmentOf ''m1'' renamedEntry None)) True emptyCache))
     = [''other'']
   \<and> map mc_id (fst (buildModels [''m1''] (Some (enrichmentOf ''m1'' paidEntry None)) False emptyCache))
     = []"
  by (simp add: buildModels_fst merge_defs enrichmentOf_def renamedEntry_def paidEntry_def)

text \<open>
  C1, amended. When the enrichment entries found for the ids are filed under their own id
  (or carry none), the registry that \<^verbatim>\<open>buildModels\<close> merges has exactly the input ids, in
  the input order and with the input's repetitions; that registry is what is returned
  when an API key is configured and what is written, as JSON, to the enriched-registry
  file; without an API key the ids returned are those input ids whose record is free, in
  the input order.
\<close>

theorem C1_merge_keeps_ids:
  assumes "idsAgree d ids"
  shows "map mc_id (pushModels d ids []) = ids
       \<and> fst (buildModels ids d True s) = pushModels d ids []
       \<and> map mc_id (fst (buildModels ids d False s)) = filter (\<lambda>i. isFreeModel (modelFor d i)) ids
       \<and> (writable s MODELS_CACHE_FILE \<longrightarrow>
            models_file (snd (buildModels ids d k s))
              = Some (map stringified (pushModels d ids [])))"
proof -
  have merged: "pushModels d ids [] = map (modelFor d) ids"
    by (simp add: pushModels_map)
  have 1: "map mc_id (pushModels d ids []) = ids"
    unfolding merged using assms by (rule idsAgree_map)
  have 2: "fst (buildModels ids d True s) = pushModels d ids []"
    unfolding merged by (simp add: buildModels_fst)
  have "map mc_id (filter isFreeModel (map (modelFor d) ids))
          = filter (\<lambda>i. isFreeModel (modelFor d i)) ids"
    using assms by (rule filter_map_ids)
  then have 3: "map mc_id (fst (buildModels ids d False s))
          = filter (\<lambda>i. isFreeModel (modelFor d i)) ids"
    by (simp only: buildModels_fst if_False)
  have 4: "writable s MODELS_CACHE_FILE \<longrightarrow>
             models_file (snd (buildModels ids d k s))
               = Some (map stringified (pushModels d ids []))"
    unfolding merged by (simp add: buildModels_snd saveModelsToCache_def)
  from 1 2 3 4 show ?thesis by blast
qed

theorem C1_merge_keeps_ids_witness:
  "idsAgree (Some (enrichmentOf ''m1'' paidEntry None)) [''m1'', ''m2'']
   \<and> map mc_id (pushModels (Some (enrichmentOf ''m1'' paidEntry None)) [''m1'', ''m2''] [])
       = [''m1'', ''m2'']
   \<and> map mc_id (fst (buildModels [''m1'', ''m2''] (Some (enrichmentOf ''m1'' paidEntry None)) False emptyCache))
       = [''m2'']
   \<and> writable emptyCache MODELS_CACHE_FILE"
proof -
  have h: "idsAgree (Some (enrichmentOf ''m1'' paidEntry None)) [''m1'', ''m2'']"
    by (simp add: idsAgree_def devModelOf_def inheritedMember_def inheritedName_def
          enrichmentOf_def paidEntry_def)
  have f: "filter (\<lambda>i. isFreeModel (modelFor (Some (enrichmentOf ''m1'' paidEntry None)) i))
             [''m1'', ''m2''] = [''m2'']"
    by (simp add: merge_defs enrichmentOf_def paidEntry_def)
  have w: "writable emptyCache MODELS_CACHE_FILE"
    by (simp add: emptyCache_def processStart_def)
  from C1_merge_keeps_ids [OF h, of emptyCache True] h f w show ?thesis by simp
qed

section \<open>Defaults and backend routing\<close>

text \<open>
  An id that has no entry in the enrichment and is not the name of an inherited member
  gets the record with the backend \<^verbatim>\<open>openai-completions\<close>, the input modalities
  \<^verbatim>\<open>["text"]\<close>, the four costs 0, the context window 128000, 16384 output tokens, no
  reasoning and the id as its name. With absent enrichment \<^verbatim>\<open>buildModels\<close> returns
  exactly these records for the ids, with or without an API key, and all of them are free.
\<close>

lemma defaults_without_entry:
  "(ownEntry d i = None \<and> inheritedName i = None \<longrightarrow>
      modelFor d i
        = \<lparr> mc_id = i, mc_name = i, mc_backend = OpenAICompletions,
             mc_reasoning = False, mc_input = [Text],
             mc_cost = \<lparr> cost_input = Some (Num 0), cost_output = Some (Num 0),
                         cost_cacheRead = Some (Num 0), cost_cacheWrite = Some (Num 0) \<rparr>,
             mc_contextWindow = Some (Num 128000), mc_maxTokens = Some (Num 16384) \<rparr>)
   \<and> fst (buildModels ids None hasApiKey s)
        = map (\<lambda>i. \<lparr> mc_id = i, mc_name = i, mc_backend = OpenAICompletions,
             mc_reasoning = False, mc_input = [Text],
             mc_cost = \<lparr> cost_input = Some (Num 0), cost_output = Some (Num 0),
                         cost_cacheRead = Some (Num 0), cost_cacheWrite = Some (Num 0) \<rparr>,
             mc_contextWindow = Some (Num 128000), mc_maxTokens = Some (Num 16384) \<rparr>) ids
   \<and> list_all isFreeModel (fst (buildModels ids None hasApiKey s))"
proof -
  have d: "\<And>j. defaults j = \<lparr> mc_id = j, mc_name = j, mc_backend = OpenAICompletions,
             mc_reasoning = False, mc_input = [Text],
             mc_cost = \<lparr> cost_input = Some (Num 0), cost_output = Some (Num 0),
                         cost_cacheRead = Some (Num 0), cost_cacheWrite = Some (Num 0) \<rparr>,
             mc_contextWindow = Some (Num 128000), mc_maxTokens = Some (Num 16384) \<rparr>"
    by (simp add: defaults_def)
  have none: "map (modelFor None) ids = map defaults ids"
    by (simp add: modelFor_None devModelOf_None)
  have free: "filter isFreeModel (map defaults ids) = map defaults ids"
    by (induction ids) (simp_all add: isFreeModel_defaults)
  have 1: "ownEntry d i = None \<and> inheritedName i = None \<longrightarrow> modelFor d i = defaults i"
    by (auto simp: modelFor_def devModelOf_def ownEntry_def inheritedMember_def
          split: option.splits)
  have 3: "fst (buildModels ids None hasApiKey s) = map defaults ids"
    by (simp add: buildModels_fst none free)
  have 4: "list_all isFreeModel (fst (buildModels ids None hasApiKey s))"
    unfolding 3 by (induction ids) (simp_all add: isFreeModel_defaults)
  from 1 3 4 show ?thesis unfolding d by blast
qed

text \<open>
  C6, at the id \<^verbatim>\<open>constructor\<close>. The claim is that every id with no enrichment entry gets
  the default record: backend \<^verbatim>\<open>openai-completions\<close> and the id as its display name. The
  enrichment here has the one entry \<^verbatim>\<open>m1\<close> and the provider default
  \<^verbatim>\<open>@ai-sdk/anthropic\<close>; it has no entry for \<^verbatim>\<open>constructor\<close>. The lookup of line 235
  finds the inherited function \<^verbatim>\<open>Object\<close>, the loop takes the branch for enriched ids,
  and the record gets the name \<^verbatim>\<open>Object\<close> and the anthropic backend.
\<close>

theorem C6_inherited_member_is_enriched:
  "ownEntry (Some (enrichmentOf ''m1'' paidEntry (Some ''@ai-sdk/anthropic''))) ''constructor'' = None
   \<and> fst (buildModels [''constructor'']
          (Some (enrichmentOf ''m1'' paidEntry (Some ''@ai-sdk/anthropic''))) True emptyCache)
       = [\<lparr> mc_id = ''constructor'', mc_name = ''Object'', mc_backend = Anthropic,
             mc_reasoning = False, mc_input = [Text],
             mc_cost = \<lparr> cost_input = Some (Num 0), cost_output = Some (Num 0),
                         cost_cacheRead = Some (Num 0), cost_cacheWrite = Some (Num 0) \<rparr>,
             mc_contextWindow = Some (Num 128000), mc_maxTokens = Some (Num 16384) \<rparr>]"
  by (simp add: buildModels_fst merge_defs enrichmentOf_def)

text \<open>
  C7. \<open>getBackendFromNpmPackage\<close> computes the backend of the specification's wording.
  The backend of every record built from an enrichment entry, in the loop body and in the
  merged list, is that backend for the entry's own \<^verbatim>\<open>provider.npm\<close> and the
  \<^verbatim>\<open>provider.npm\<close> of the enrichment document: a non-empty hint of the entry decides by
  exact match whatever the provider default is, and an entry without a \<^verbatim>\<open>provider\<close>
  under the provider default \<^verbatim>\<open>@ai-sdk/anthropic\<close> is routed to the anthropic backend.
  A record whose input and output costs are positive is not free.
\<close>

theorem C7_backend_of_hint:
  "getBackendFromNpmPackage hint dflt = backend_spec hint dflt
   \<and> (devModelOf (Some oc) i = Some e \<longrightarrow>
        mc_backend (modelFor (Some oc) i)
          = backend_spec (case dev_provider e of None \<Rightarrow> None | Some p \<Rightarrow> npm p)
              (case provider oc of None \<Rightarrow> None | Some p \<Rightarrow> npm p))
   \<and> (n < length ids \<and> devModelOf (Some oc) (ids ! n) = Some e \<longrightarrow>
        mc_backend (pushModels (Some oc) ids [] ! n)
          = backend_spec (case dev_provider e of None \<Rightarrow> None | Some p \<Rightarrow> npm p)
              (case provider oc of None \<Rightarrow> None | Some p \<Rightarrow> npm p))
   \<and> (devModelOf (Some oc) i = Some e \<and> dev_provider e = Some p \<and> npm p = Some h \<and> h \<noteq> []
        \<longrightarrow> mc_backend (modelFor (Some oc) i) = hintBackend_spec h)
   \<and> (devModelOf (Some oc) i = Some e \<and> dev_provider e = None
        \<and> provider oc = Some pp \<and> npm pp = Some ''@ai-sdk/anthropic''
        \<longrightarrow> mc_backend (modelFor (Some oc) i) = Anthropic)
   \<and> (cost_input (mc_cost m) = Some (Num a) \<and> 0 < a
        \<and> cost_output (mc_cost m) = Some (Num b) \<and> 0 < b \<longrightarrow> \<not> isFreeModel m)"
proof -
  have hint: "entryHint e = (case dev_provider e of None \<Rightarrow> None | Some p \<Rightarrow> npm p)"
    by (simp add: entryHint_def)
  have dflt: "providerDefaultNpm (Some oc) = (case provider oc of None \<Rightarrow> None | Some p \<Rightarrow> npm p)"
    by (simp add: providerDefaultNpm_def)
  have 1: "getBackendFromNpmPackage hint dflt = backend_spec hint dflt"
    by (rule getBackend_refines)
  have 2: "devModelOf (Some oc) i = Some e \<longrightarrow>
        mc_backend (modelFor (Some oc) i)
          = backend_spec (case dev_provider e of None \<Rightarrow> None | Some p \<Rightarrow> npm p)
              (case provider oc of None \<Rightarrow> None | Some p \<Rightarrow> npm p)"
    by (simp add: modelFor_backend getBackend_refines hint dflt)
  have 3: "n < length ids \<and> devModelOf (Some oc) (ids ! n) = Some e \<longrightarrow>
        mc_backend (pushModels (Some oc) ids [] ! n)
          = backend_spec (case dev_provider e of None \<Rightarrow> None | Some p \<Rightarrow> npm p)
              (case provider oc of None \<Rightarrow> None | Some p \<Rightarrow> npm p)"
    by (simp add: pushModels_map modelFor_backend getBackend_refines hint dflt)
  have 4: "devModelOf (Some oc) i = Some e \<and> dev_provider e = Some p \<and> npm p = Some h \<and> h \<noteq> []
        \<longrightarrow> mc_backend (modelFor (Some oc) i) = hintBackend_spec h"
    by (simp add: modelFor_backend getBackend_refines hint backend_spec_def truthy_def)
  have 5: "devModelOf (Some oc) i = Some e \<and> dev_provider e = None
        \<and> provider oc = Some pp \<and> npm pp = Some ''@ai-sdk/anthropic''
        \<longrightarrow> mc_backend (modelFor (Some oc) i) = Anthropic"
    by (simp add: modelFor_backend hint dflt getBackendFromNpmPackage_def)
  have 6: "cost_input (mc_cost m) = Some (Num a) \<and> 0 < a
        \<and> cost_output (mc_cost m) = Some (Num b) \<and> 0 < b \<longrightarrow> \<not> isFreeModel m"
    by (simp add: isFreeModel_def)
  from 1 2 3 4 5 6 show ?thesis by blast
qed

text \<open>
  The witness: an entry hinted \<^verbatim>\<open>@ai-sdk/google\<close> under the provider default
  \<^verbatim>\<open>@ai-sdk/anthropic\<close>, which is routed to the google backend; and Scenario B,
  \<^verbatim>\<open>m1\<close> with the costs 0.01 and 0.03 and no hint under the same provider default.
\<close>

theorem C7_backend_of_hint_witness:
  "devModelOf (Some (enrichmentOf ''m1'' hintedEntry (Some ''@ai-sdk/anthropic''))) ''m1''
      = Some hintedEntry
   \<and> dev_provider hintedEntry = Some \<lparr> npm = Some ''@ai-sdk/google'', api = None \<rparr>
   \<and> mc_backend (modelFor (Some (enrichmentOf ''m1'' hintedEntry (Some ''@ai-sdk/anthropic''))) ''m1'')
      = Google
   \<and> (0::nat) < length [''m1'']
   \<and> mc_backend (pushModels (Some (enrichmentOf ''m1'' hintedEntry (Some ''@ai-sdk/anthropic'')))
         [''m1''] [] ! 0) = Google
   \<and> devModelOf (Some (enrichmentOf ''m1'' paidEntry (Some ''@ai-sdk/anthropic''))) ''m1''
      = Some paidEntry
   \<and> dev_provider paidEntry = None
   \<and> provider (enrichmentOf ''m1'' paidEntry (Some ''@ai-sdk/anthropic''))
      = Some \<lparr> npm = Some ''@ai-sdk/anthropic'', api = None \<rparr>
   \<and> mc_backend (modelFor (Some (enrichmentOf ''m1'' paidEntry (Some ''@ai-sdk/anthropic''))) ''m1'')
      = Anthropic
   \<and> cost_input (mc_cost (modelFor (Some (enrichmentOf ''m1'' paidEntry (Some ''@ai-sdk/anthropic''))) ''m1''))
      = Some (Num 0.01)
   \<and> cost_output (mc_cost (modelFor (Some (enrichmentOf ''m1'' paidEntry (Some ''@ai-sdk/anthropic''))) ''m1''))
      = Some (Num 0.03)
   \<and> \<not> isFreeModel (modelFor (Some (enrichmentOf ''m1'' paidEntry (Some ''@ai-sdk/anthropic''))) ''m1'')"
proof -
  let ?g = "enrichmentOf ''m1'' hintedEntry (Some ''@ai-sdk/anthropic'')"
  let ?b = "enrichmentOf ''m1'' paidEntry (Some ''@ai-sdk/anthropic'')"
  let ?gp = "\<lparr> npm = Some ''@ai-sdk/google'', api = None \<rparr>"
  let ?bp = "\<lparr> npm = Some ''@ai-sdk/anthropic'', api = None \<rparr>"
  have g1: "devModelOf (Some ?g) ''m1'' = Some hintedEntry"
    by (simp add: devModelOf_def enrichmentOf_def)
  have g1': "devModelOf (Some ?g) ([''m1''] ! 0) = Some hintedEntry"
    by (simp add: devModelOf_def enrichmentOf_def)
  have g2: "dev_provider hintedEntry = Some ?gp"
    by (simp add: hintedEntry_def)
  have g3: "npm ?gp = Some ''@ai-sdk/google''"
    by simp
  have g4: "''@ai-sdk/google'' \<noteq> []"
    by simp
  have g5: "hintBackend_spec ''@ai-sdk/google'' = Google"
    by (simp add: hintBackend_spec_def)
  have g6: "backend_spec (case dev_provider hintedEntry of None \<Rightarrow> None | Some p \<Rightarrow> npm p)
              (case provider ?g of None \<Rightarrow> None | Some p \<Rightarrow> npm p) = Google"
    by (simp add: hintedEntry_def enrichmentOf_def backend_spec_def hintBackend_spec_def truthy_def)
  have l: "(0::nat) < length [''m1'']"
    by simp
  have b1: "devModelOf (Some ?b) ''m1'' = Some paidEntry"
    by (simp add: devModelOf_def enrichmentOf_def)
  have b2: "dev_provider paidEntry = None"
    by (simp add: paidEntry_def)
  have b3: "provider ?b = Some ?bp"
    by (simp add: enrichmentOf_def)
  have b4: "npm ?bp = Some ''@ai-sdk/anthropic''"
    by simp
  have p: "cost_input (mc_cost (modelFor (Some ?b) ''m1'')) = Some (Num 0.01)"
    by (simp add: merge_defs enrichmentOf_def paidEntry_def)
  have q: "cost_output (mc_cost (modelFor (Some ?b) ''m1'')) = Some (Num 0.03)"
    by (simp add: merge_defs enrichmentOf_def paidEntry_def)
  have pos: "(0::real) < 0.01 \<and> (0::real) < 0.03"
    by simp
  have google: "mc_backend (modelFor (Some ?g) ''m1'') = Google
      \<and> mc_backend (pushModels (Some ?g) [''m1''] [] ! 0) = Google"
    using C7_backend_of_hint [of None None ?g "''m1''" hintedEntry 0 "[''m1'']" ?gp
        "''@ai-sdk/google''" ?gp "modelFor (Some ?b) ''m1''" "0.01" "0.03"]
      g1 g1' g2 g3 g4 g5 g6 l
    by metis
  have anthropic: "mc_backend (modelFor (Some ?b) ''m1'') = Anthropic
      \<and> \<not> isFreeModel (modelFor (Some ?b) ''m1'')"
    using C7_backend_of_hint [of None None ?b "''m1''" paidEntry 0 "[''m1'']" ?bp
        "''@ai-sdk/anthropic''" ?bp "modelFor (Some ?b) ''m1''" "0.01" "0.03"]
      b1 b2 b3 b4 p q pos
    by metis
  from google anthropic g1 g2 l b1 b2 b3 p q show ?thesis by blast
qed

section \<open>Change tracker\<close>

text \<open>
  C5. For all id sequences \<open>previous\<close> and \<open>current\<close>, \<open>added\<close> is \<open>current\<close> without the
  elements of \<open>previous\<close> and \<open>removed\<close> is \<open>previous\<close> without the elements of
  \<open>current\<close>, each in the order of the sequence it is taken from; as sets they are
  disjoint, and each of them together with the common elements gives back its sequence.
\<close>

theorem C5_free_model_changes:
  "fst (freeModelChanges previous current) = filter (\<lambda>i. i \<notin> set previous) current
   \<and> snd (freeModelChanges previous current) = filter (\<lambda>i. i \<notin> set current) previous
   \<and> subseq (fst (freeModelChanges previous current)) current
   \<and> subseq (snd (freeModelChanges previous current)) previous
   \<and> set (fst (freeModelChanges previous current)) = set current - set previous
   \<and> set (snd (freeModelChanges previous current)) = set previous - set current
   \<and> set (fst (freeModelChanges previous current)) \<inter> set (snd (freeModelChanges previous current)) = {}
   \<and> set (fst (freeModelChanges previous current)) \<union> (set current \<inter> set previous) = set current
   \<and> set (snd (freeModelChanges previous current)) \<union> (set current \<inter> set previous) = set previous"
  by (auto simp: freeModelChanges_def)

section \<open>The authoritative list\<close>




section \<open>Dispatch\<close>

text \<open>
  C4. \<^verbatim>\<open>streamOpenCodeZen\<close> always returns an ended stream. When the requested id is not
  in the published map the stream holds exactly one event, the error event with the
  message \<^verbatim>\<open>Unknown model: <id>\<close>, and no stream function is called; when the record is
  not free and no API key is given it holds exactly the error event asking for the key, and
  no stream function is called; for a free record the stream function of the record's
  backend is called whether or not a key is given.
\<close>

theorem C4_dispatch_errors_in_stream:
  "ended (fst (streamOpenCodeZen mp model apiKey backends now))
   \<and> (Map_get mp (model_id model) = None \<longrightarrow>
        streamOpenCodeZen mp model apiKey backends now
          = (\<lparr> events = [errorEvent model (''Unknown model: '' @ model_id model) now],
               ended = True \<rparr>, None))
   \<and> (Map_get mp (model_id model) = Some cfg \<and> \<not> isFreeModel cfg \<and> \<not> truthy apiKey \<longrightarrow>
        streamOpenCodeZen mp model apiKey backends now
          = (\<lparr> events = [errorEvent model
                ''No OpenCode API key. Set OPENCODE_API_KEY env var. (This model requires an API key.)''
                now],
               ended = True \<rparr>, None))
   \<and> (Map_get mp (model_id model) = Some cfg \<and> isFreeModel cfg \<longrightarrow>
        snd (streamOpenCodeZen mp model apiKey backends now)
          = Some (getStreamFunction (mc_backend cfg)))
   \<and> (\<exists>e. errorEvent model message now = (ErrorEvent ''error'' e :: 'e Event)
          \<and> err_errorMessage e = message \<and> err_stopReason e = ''error''
          \<and> err_model e = model_id model)"
proof -
  have 1: "ended (fst (streamOpenCodeZen mp model apiKey backends now))"
    by (simp add: streamOpenCodeZen_def split: sum.splits prod.splits option.splits)
  have 2: "Map_get mp (model_id model) = None \<longrightarrow>
        streamOpenCodeZen mp model apiKey backends now
          = (\<lparr> events = [errorEvent model (''Unknown model: '' @ model_id model) now],
               ended = True \<rparr>, None)"
    by (simp add: streamOpenCodeZen_def tryDispatch_def)
  have 3: "Map_get mp (model_id model) = Some cfg \<and> \<not> isFreeModel cfg \<and> \<not> truthy apiKey \<longrightarrow>
        streamOpenCodeZen mp model apiKey backends now
          = (\<lparr> events = [errorEvent model
                ''No OpenCode API key. Set OPENCODE_API_KEY env var. (This model requires an API key.)''
                now],
               ended = True \<rparr>, None)"
    by (simp add: streamOpenCodeZen_def tryDispatch_def)
  have 4: "Map_get mp (model_id model) = Some cfg \<and> isFreeModel cfg \<longrightarrow>
        snd (streamOpenCodeZen mp model apiKey backends now)
          = Some (getStreamFunction (mc_backend cfg))"
    by (auto simp: streamOpenCodeZen_def tryDispatch_def Let_def split: prod.splits option.splits)
  have 5: "\<exists>e. errorEvent model message now = (ErrorEvent ''error'' e :: 'e Event)
          \<and> err_errorMessage e = message \<and> err_stopReason e = ''error''
          \<and> err_model e = model_id model"
    by (simp add: errorEvent_def)
  from 1 2 3 4 5 show ?thesis by blast
qed

text \<open>
  The witness: over a registry with the paid \<^verbatim>\<open>m1\<close> and the free \<^verbatim>\<open>m2\<close>, requests
  without a key for the unknown \<^verbatim>\<open>m3\<close>, for \<^verbatim>\<open>m1\<close> and for \<^verbatim>\<open>m2\<close>.
\<close>

theorem C4_dispatch_errors_in_stream_witness:
  "Map_get sampleMap (model_id (request ''m3'')) = None
   \<and> snd (streamOpenCodeZen sampleMap (request ''m3'') None quietBackends 0) = None
   \<and> Map_get sampleMap (model_id (request ''m1''))
        = Some (modelFor (Some (enrichmentOf ''m1'' paidEntry None)) ''m1'')
   \<and> \<not> isFreeModel (modelFor (Some (enrichmentOf ''m1'' paidEntry None)) ''m1'')
   \<and> \<not> truthy None
   \<and> snd (streamOpenCodeZen sampleMap (request ''m1'') None quietBackends 0) = None
   \<and> Map_get sampleMap (model_id (request ''m2'')) = Some (defaults ''m2'')
   \<and> isFreeModel (defaults ''m2'')
   \<and> snd (streamOpenCodeZen sampleMap (request ''m2'') None quietBackends 0)
        = Some streamSimpleOpenAICompletions"
proof -
  let ?paid = "modelFor (Some (enrichmentOf ''m1'' paidEntry None)) ''m1''"
  have a: "Map_get sampleMap (model_id (request ''m3'')) = None"
    by (simp add: sampleMap_def Map_get_def request_def merge_defs enrichmentOf_def paidEntry_def)
  have b: "Map_get sampleMap (model_id (request ''m1'')) = Some ?paid"
    by (simp add: sampleMap_def Map_get_def request_def merge_defs enrichmentOf_def paidEntry_def)
  have c: "\<not> isFreeModel ?paid"
    by (simp add: merge_defs enrichmentOf_def paidEntry_def)
  have d: "\<not> truthy None"
    by (simp add: truthy_def)
  have e: "Map_get sampleMap (model_id (request ''m2'')) = Some (defaults ''m2'')"
    by (simp add: sampleMap_def Map_get_def request_def merge_defs enrichmentOf_def paidEntry_def)
  have f: "isFreeModel (defaults ''m2'')"
    by (rule isFreeModel_defaults)
  have g: "getStreamFunction (mc_backend (defaults ''m2'')) = streamSimpleOpenAICompletions"
    by (simp add: defaults_def)
  have r3: "snd (streamOpenCodeZen sampleMap (request ''m3'') None quietBackends 0) = None"
    using C4_dispatch_errors_in_stream [of sampleMap "request ''m3''" None quietBackends 0 ?paid "[]"] a
    by (metis snd_conv)
  have r1: "snd (streamOpenCodeZen sampleMap (request ''m1'') None quietBackends 0) = None"
    using C4_dispatch_errors_in_stream [of sampleMap "request ''m1''" None quietBackends 0 ?paid "[]"] b c d
    by (metis snd_conv)
  have r2: "snd (streamOpenCodeZen sampleMap (request ''m2'') None quietBackends 0)
              = Some streamSimpleOpenAICompletions"
    using C4_dispatch_errors_in_stream [of sampleMap "request ''m2''" None quietBackends 0
        "defaults ''m2''" "[]"] e f g
    by metis
  from a b c d e f r1 r2 r3 show ?thesis by blast
qed

section \<open>The enriched-registry file\<close>

text \<open>
  C8, as the code has it. The registry merged from the single id \<^verbatim>\<open>""\<close> has one record;
  written to the file and loaded again, it is rejected by the validation of
  \<^verbatim>\<open>loadModelsFromCache\<close>, which answers \<^verbatim>\<open>null\<close>. The registry merged from \<^verbatim>\<open>m1\<close>
  and an entry whose context limit is \<^verbatim>\<open>Infinity\<close> has one record; loaded again it is
  not the registry that was written.
\<close>

theorem C8_counterexample:
  "length (fst (buildModels [[]] None True emptyCache)) = 1
   \<and> loadModelsFromCache (saveModelsToCache (fst (buildModels [[]] None True emptyCache)) emptyCache)
       = None
   \<and> length (fst (buildModels [''m1''] (Some (enrichmentOf ''m1'' hugeEntry None)) True emptyCache)) = 1
   \<and> loadModelsFromCache
        (saveModelsToCache
          (fst (buildModels [''m1''] (Some (enrichmentOf ''m1'' hugeEntry None)) True emptyCache))
          emptyCache)
       \<noteq> Some (fst (buildModels [''m1''] (Some (enrichmentOf ''m1'' hugeEntry None)) True emptyCache))"
proof -
  have 1: "length (fst (buildModels [[]] None True emptyCache)) = 1"
    by (simp add: buildModels_fst)
  have 2: "loadModelsFromCache
             (saveModelsToCache (fst (buildModels [[]] None True emptyCache)) emptyCache) = None"
    by (simp add: buildModels_fst loadModelsFromCache_def saveModelsToCache_def emptyCache_def
          processStart_def stringified_names merge_defs)
  have 3: "length (fst (buildModels [''m1''] (Some (enrichmentOf ''m1'' hugeEntry None)) True emptyCache)) = 1"
    by (simp add: buildModels_fst)
  have 4: "loadModelsFromCache
        (saveModelsToCache
          (fst (buildModels [''m1''] (Some (enrichmentOf ''m1'' hugeEntry None)) True emptyCache))
          emptyCache)
       \<noteq> Some (fst (buildModels [''m1''] (Some (enrichmentOf ''m1'' hugeEntry None)) True emptyCache))"
    by (simp add: buildModels_fst loadModelsFromCache_def saveModelsToCache_def emptyCache_def
          processStart_def stringified_def jsonNumber_def merge_defs enrichmentOf_def hugeEntry_def)
  from 1 2 3 4 show ?thesis by blast
qed

text \<open>
  C8, amended. When the write succeeds, a registry with at least one record in which every
  record has a non-empty id, a non-empty name and only finite numbers is loaded again,
  after it was saved, as the same registry; a registry with a record whose id or name is
  empty is rejected on load. The registry that \<^verbatim>\<open>buildModels\<close> writes for a non-empty
  sequence of non-empty ids is loaded again as it was merged, when the enrichment entries
  of these ids give only finite numbers.
\<close>

theorem C8_save_then_load:
  assumes "writable s MODELS_CACHE_FILE"
  shows "(ms \<noteq> [] \<and> list_all (\<lambda>m. mc_id m \<noteq> [] \<and> mc_name m \<noteq> [] \<and> finiteModel m) ms \<longrightarrow>
            loadModelsFromCache (saveModelsToCache ms s) = Some ms)
       \<and> (list_ex (\<lambda>m. mc_id m = [] \<or> mc_name m = []) ms \<longrightarrow>
            loadModelsFromCache (saveModelsToCache ms s) = None)
       \<and> (ids \<noteq> [] \<and> [] \<notin> set ids \<and> finiteEnrichment d ids \<longrightarrow>
            loadModelsFromCache (snd (buildModels ids d k s)) = Some (pushModels d ids []))"
proof -
  have 1: "ms \<noteq> [] \<and> list_all (\<lambda>m. mc_id m \<noteq> [] \<and> mc_name m \<noteq> [] \<and> finiteModel m) ms \<longrightarrow>
            loadModelsFromCache (saveModelsToCache ms s) = Some ms"
  proof
    assume h: "ms \<noteq> [] \<and> list_all (\<lambda>m. mc_id m \<noteq> [] \<and> mc_name m \<noteq> [] \<and> finiteModel m) ms"
    then have v: "validModels ms"
      by (simp add: validModels_iff list_all_iff)
    from h have "list_all finiteModel ms"
      by (simp add: list_all_iff)
    then have "map stringified ms = ms"
      by (rule map_stringified_finite)
    with h v assms show "loadModelsFromCache (saveModelsToCache ms s) = Some ms"
      by (simp add: load_after_save)
  qed
  have 2: "list_ex (\<lambda>m. mc_id m = [] \<or> mc_name m = []) ms \<longrightarrow>
            loadModelsFromCache (saveModelsToCache ms s) = None"
    using assms by (auto simp: load_after_save validModels_iff list_all_iff list_ex_iff)
  have 3: "ids \<noteq> [] \<and> [] \<notin> set ids \<and> finiteEnrichment d ids \<longrightarrow>
            loadModelsFromCache (snd (buildModels ids d k s)) = Some (pushModels d ids [])"
  proof
    let ?ms = "map (modelFor d) ids"
    assume h: "ids \<noteq> [] \<and> [] \<notin> set ids \<and> finiteEnrichment d ids"
    then have "list_all finiteModel ?ms"
      by (simp add: finiteModel_merged)
    then have fin: "map stringified ?ms = ?ms"
      by (rule map_stringified_finite)
    from h have v: "validModels ?ms"
      by (simp add: validModels_merged)
    from h have ne: "?ms \<noteq> []"
      by simp
    have "loadModelsFromCache (saveModelsToCache ?ms s)
            = (if ?ms \<noteq> [] \<and> validModels ?ms then Some (map stringified ?ms) else None)"
      using assms by (rule load_after_save)
    also have "\<dots> = Some ?ms"
      using v ne fin by (simp only: simp_thms if_True)
    finally show "loadModelsFromCache (snd (buildModels ids d k s)) = Some (pushModels d ids [])"
      by (simp only: buildModels_snd pushModels_map append_Nil)
  qed
  from 1 2 3 show ?thesis by blast
qed

theorem C8_save_then_load_witness:
  "writable emptyCache MODELS_CACHE_FILE
   \<and> [defaults ''m2''] \<noteq> []
   \<and> list_all (\<lambda>m. mc_id m \<noteq> [] \<and> mc_name m \<noteq> [] \<and> finiteModel m) [defaults ''m2'']
   \<and> loadModelsFromCache (saveModelsToCache [defaults ''m2''] emptyCache) = Some [defaults ''m2'']
   \<and> list_ex (\<lambda>m. mc_id m = [] \<or> mc_name m = []) [defaults ''m2'', defaults []]
   \<and> loadModelsFromCache (saveModelsToCache [defaults ''m2'', defaults []] emptyCache) = None
   \<and> [''m1''] \<noteq> [] \<and> [] \<notin> set [''m1'']
   \<and> finiteEnrichment (Some (enrichmentOf ''m1'' paidEntry None)) [''m1'']
   \<and> loadModelsFromCache
        (snd (buildModels [''m1''] (Some (enrichmentOf ''m1'' paidEntry None)) False emptyCache))
       = Some (pushModels (Some (enrichmentOf ''m1'' paidEntry None)) [''m1''] [])"
proof -
  have w: "writable emptyCache MODELS_CACHE_FILE"
    by (simp add: emptyCache_def processStart_def)
  have v: "[defaults ''m2''] \<noteq> []
           \<and> list_all (\<lambda>m. mc_id m \<noteq> [] \<and> mc_name m \<noteq> [] \<and> finiteModel m) [defaults ''m2'']"
    by (simp add: finiteModel_defaults) (simp add: defaults_def)
  have x: "list_ex (\<lambda>m. mc_id m = [] \<or> mc_name m = []) [defaults ''m2'', defaults []]"
    by (simp add: defaults_def)
  have i: "[''m1''] \<noteq> [] \<and> [] \<notin> set [''m1'']"
    by simp
  have f: "finiteEnrichment (Some (enrichmentOf ''m1'' paidEntry None)) [''m1'']"
    by (simp add: finiteEnrichment_def finiteEntry_def finiteOrAbsent_def devModelOf_def
          enrichmentOf_def paidEntry_def)
  from v x i f w
    C8_save_then_load [OF w, of "[defaults ''m2'']" "[''m1'']"
      "Some (enrichmentOf ''m1'' paidEntry None)" False]
    C8_save_then_load [OF w, of "[defaults ''m2'', defaults []]" "[''m1'']"
      "Some (enrichmentOf ''m1'' paidEntry None)" False]
  show ?thesis by blast
qed

section \<open>Cold start without a free model\<close>

text \<open>
  C9. On a cold start without an API key, when the authoritative fetch yields a non-empty id
  list within the deadline and no merged record is free, the exported function publishes
  nothing: the lookup map and the provider registration are as before (so on a fresh
  process every lookup misses), no free-id snapshot is written, no background refresh is
  started, and the last line logged is the one that is logged when the authoritative fetch
  itself fails.
\<close>

theorem C9_cold_start_without_free_model:
  assumes cold: "loadModelsFromCache s = None"
    and nokey: "\<not> truthy (OPENCODE_API_KEY env)"
    and fetched: "zenModelIdsOf (zen env) (Some COLD_START_TIMEOUT_MS) = Some ids"
    and nonempty: "ids \<noteq> []"
    and nofree: "list_all (\<lambda>m. \<not> isFreeModel m)
                   (pushModels (modelsDevDataOf (modelsDev env) (Some COLD_START_TIMEOUT_MS)) ids [])"
  shows "snd (activate env s) = False
       \<and> MODEL_MAP (fst (activate env s)) = MODEL_MAP s
       \<and> registered (fst (activate env s)) = registered s
       \<and> free_ids_file (fst (activate env s)) = free_ids_file s
       \<and> notification (fst (activate env s)) = notification s
       \<and> last (console (fst (activate env s))) = noModelsMessage
       \<and> (MODEL_MAP s = [] \<longrightarrow> (\<forall>i. Map_get (MODEL_MAP (fst (activate env s))) i = None))
       \<and> (\<forall>env'. zenModelIdsOf (zen env') (Some COLD_START_TIMEOUT_MS) = None \<longrightarrow>
             activate env' s = (s\<lparr>console := console s @ [noModelsMessage]\<rparr>, False))"
proof -
  let ?k = "truthy (OPENCODE_API_KEY env)"
  let ?r = "fetchFreshModels ?k (Some COLD_START_TIMEOUT_MS) env s"
  have empty: "fst ?r = Some []"
    using nokey fetched nofree
    by (simp add: fetchFreshModels_eq buildModels_fst pushModels_map filter_none_free)
  have act: "activate env s = ((snd ?r)\<lparr>console := console (snd ?r) @ [noModelsMessage]\<rparr>, False)"
    using cold empty by (simp add: activate_cold coldStart_abandon)
  have fail: "\<forall>env'. zenModelIdsOf (zen env') (Some COLD_START_TIMEOUT_MS) = None \<longrightarrow>
             activate env' s = (s\<lparr>console := console s @ [noModelsMessage]\<rparr>, False)"
    using cold by (simp add: activate_cold coldStart_def fetchFreshModels_eq)
  show ?thesis
    unfolding act using fail by (simp add: fetchFreshModels_frame Map_get_def)
qed

text \<open>
  The witness: an empty cache directory, Zen listing the paid \<^verbatim>\<open>m1\<close> only, and for the
  comparison an unreachable Zen.
\<close>

theorem C9_cold_start_without_free_model_witness:
  "loadModelsFromCache emptyCache = None
   \<and> \<not> truthy (OPENCODE_API_KEY paidEnv)
   \<and> zenModelIdsOf (zen paidEnv) (Some COLD_START_TIMEOUT_MS) = Some [''m1'']
   \<and> list_all (\<lambda>m. \<not> isFreeModel m)
       (pushModels (modelsDevDataOf (modelsDev paidEnv) (Some COLD_START_TIMEOUT_MS)) [''m1''] [])
   \<and> MODEL_MAP emptyCache = []
   \<and> MODEL_MAP (fst (activate paidEnv emptyCache)) = []
   \<and> last (console (fst (activate paidEnv emptyCache))) = noModelsMessage
   \<and> zenModelIdsOf (zen offlineEnv) (Some COLD_START_TIMEOUT_MS) = None
   \<and> console (fst (activate offlineEnv emptyCache)) = [noModelsMessage]"
proof -
  have a: "loadModelsFromCache emptyCache = None"
    by (simp add: loadModelsFromCache_def emptyCache_def processStart_def)
  have b: "\<not> truthy (OPENCODE_API_KEY paidEnv)"
    by (simp add: truthy_def paidEnv_def sampleEnv_def)
  have c: "zenModelIdsOf (zen paidEnv) (Some COLD_START_TIMEOUT_MS) = Some [''m1'']"
    by (simp add: zenModelIdsOf_def fetchWithTimeout_def paidEnv_def sampleEnv_def zenEntry_def
          COLD_START_TIMEOUT_MS_def)
  have d: "[''m1''] \<noteq> []"
    by simp
  have e: "list_all (\<lambda>m. \<not> isFreeModel m)
       (pushModels (modelsDevDataOf (modelsDev paidEnv) (Some COLD_START_TIMEOUT_MS)) [''m1''] [])"
    by (simp add: modelsDevDataOf_def fetchWithTimeout_def paidEnv_def sampleEnv_def
          COLD_START_TIMEOUT_MS_def merge_defs enrichmentOf_def paidEntry_def)
  have f: "MODEL_MAP emptyCache = []"
    by (simp add: emptyCache_def processStart_def)
  have g: "zenModelIdsOf (zen offlineEnv) (Some COLD_START_TIMEOUT_MS) = None"
    by (simp add: zenModelIdsOf_def fetchWithTimeout_def offlineEnv_def)
  have h: "console emptyCache = []"
    by (simp add: emptyCache_def processStart_def)
  from C9_cold_start_without_free_model [OF a b c d e] a b c e f g h
  show ?thesis by simp
qed

section \<open>The published registry and the authoritative list\<close>

text \<open>
  C2, at a run that breaks it. The claim is that the published lookup map never holds an
  identifier absent from the most recent successful authoritative fetch, nor from the
  cached authoritative id list. The cache is the one left by a run that saw the free
  \<^verbatim>\<open>m2\<close>; no API key is configured; Zen now lists \<^verbatim>\<open>m1\<close> only, which the enrichment
  prices. The fast path publishes \<^verbatim>\<open>m2\<close>. The background refresh fetches the list,
  writes it to the authoritative-list file, merges a registry without a free record, and its
  continuation returns at once: \<^verbatim>\<open>m2\<close> stays in the lookup map, and a request for it is
  dispatched, although neither the list just fetched nor the list on file holds it. The
  last four conjuncts are two more runs: the fast path publishes the cached record
  \<^verbatim>\<open>m2\<close> without looking at the cached authoritative list, which holds \<^verbatim>\<open>m1\<close>; and a
  cold start publishes \<^verbatim>\<open>other\<close>, the id that the enrichment entry of \<^verbatim>\<open>m1\<close> gives
  itself.
\<close>

theorem C2_unlisted_model_stays_published:
  "loadModelsFromCache warmCache = Some [defaults ''m2'']
   \<and> zenModelIdsOf (zen paidEnv) None = Some [''m1'']
   \<and> Map_keys (MODEL_MAP (fst (activate paidEnv warmCache))) = [''m2'']
   \<and> Map_keys (MODEL_MAP (run paidEnv warmCache)) = [''m2'']
   \<and> zen_models_file (run paidEnv warmCache) = Some [''m1'']
   \<and> snd (streamOpenCodeZen (MODEL_MAP (run paidEnv warmCache)) (request ''m2'') None
          quietBackends 0) = Some streamSimpleOpenAICompletions
   \<and> Map_keys (MODEL_MAP (fst (activate offlineEnv staleCache))) = [''m2'']
   \<and> loadZenModelsFromCache staleCache = Some [''m1'']
   \<and> Map_keys (MODEL_MAP (run renamedEnv emptyCache)) = [''other'']
   \<and> zenModelIdsOf (zen renamedEnv) (Some COLD_START_TIMEOUT_MS) = Some [''m1'']"
proof -
  have 0: "loadModelsFromCache warmCache = Some [defaults ''m2'']"
    by (simp add: loadModelsFromCache_def warmCache_def processStart_def defaults_def)
  have 1: "Map_keys (MODEL_MAP (run paidEnv warmCache)) = [''m2'']"
    by (simp add: run_defs merge_defs paidEnv_def warmCache_def paidEntry_def)
  have act: "Map_keys (MODEL_MAP (fst (activate paidEnv warmCache))) = [''m2'']"
    by (simp add: run_defs merge_defs paidEnv_def warmCache_def paidEntry_def)
  have 2: "zenModelIdsOf (zen paidEnv) None = Some [''m1'']"
    by (simp add: run_defs paidEnv_def)
  have 3: "zen_models_file (run paidEnv warmCache) = Some [''m1'']"
    by (simp add: run_defs merge_defs paidEnv_def warmCache_def paidEntry_def)
  have m: "MODEL_MAP (run paidEnv warmCache) = [(''m2'', defaults ''m2'')]"
    by (simp add: run_defs merge_defs paidEnv_def warmCache_def paidEntry_def)
  have d: "snd (streamOpenCodeZen (MODEL_MAP (run paidEnv warmCache)) (request ''m2'') None
          quietBackends 0) = Some streamSimpleOpenAICompletions"
    unfolding m
    by (simp add: streamOpenCodeZen_def tryDispatch_def Map_get_def request_def quietBackends_def
          isFreeModel_defaults) (simp add: defaults_def)
  have 4: "Map_keys (MODEL_MAP (fst (activate offlineEnv staleCache))) = [''m2'']"
    by (simp add: run_defs merge_defs offlineEnv_def staleCache_def)
  have 5: "loadZenModelsFromCache staleCache = Some [''m1'']"
    by (simp add: loadZenModelsFromCache_def staleCache_def processStart_def)
  have 6: "Map_keys (MODEL_MAP (run renamedEnv emptyCache)) = [''other'']"
    by (simp add: run_defs merge_defs renamedEnv_def emptyCache_def renamedEntry_def)
  have 7: "zenModelIdsOf (zen renamedEnv) (Some COLD_START_TIMEOUT_MS) = Some [''m1'']"
    by (simp add: run_defs renamedEnv_def)
  from 0 1 act 2 3 d 4 5 6 7 show ?thesis by simp
qed

text \<open>
  Where the published ids do stay within a list. Let the two cache records be consistent
  when the run starts, and let the enrichment entries found for the fetched ids be filed
  under their own id. Then on a cold start either nothing is published or every published
  id is in the list just fetched; on the fast path every published id is in the cached
  authoritative list; a background refresh whose result is \<^verbatim>\<open>null\<close> or empty leaves the
  published map as the fast path made it, and after any other every published id is in the
  list this refresh fetched. If moreover the writes of the two records succeed or fail
  together, the records are consistent again when the run ends.
\<close>

lemma published_ids_within_lists:
  assumes consistent: "cacheConsistent s"
    and agreeCold: "enrichmentAgrees env (Some COLD_START_TIMEOUT_MS)"
    and agreeWarm: "enrichmentAgrees env None"
  shows
    "(loadModelsFromCache s = None \<longrightarrow>
        MODEL_MAP (run env s) = MODEL_MAP s
        \<or> (\<exists>ids. zenModelIdsOf (zen env) (Some COLD_START_TIMEOUT_MS) = Some ids
              \<and> set (Map_keys (MODEL_MAP (run env s))) \<subseteq> set ids))
     \<and> (loadModelsFromCache s \<noteq> None \<longrightarrow>
          set (Map_keys (MODEL_MAP (fst (activate env s)))) \<subseteq> set (cachedIds s)
          \<and> (fst (fetchFreshModels (truthy (OPENCODE_API_KEY env)) None env s) = None
                \<or> fst (fetchFreshModels (truthy (OPENCODE_API_KEY env)) None env s) = Some []
              \<longrightarrow> MODEL_MAP (run env s) = MODEL_MAP (fst (activate env s)))
          \<and> (\<forall>ms. fst (fetchFreshModels (truthy (OPENCODE_API_KEY env)) None env s) = Some ms
                  \<and> ms \<noteq> []
              \<longrightarrow> (\<exists>ids. zenModelIdsOf (zen env) None = Some ids
                      \<and> set (Map_keys (MODEL_MAP (run env s))) \<subseteq> set ids)))
     \<and> (writable s ZEN_MODELS_CACHE_FILE = writable s MODELS_CACHE_FILE \<longrightarrow>
          cacheConsistent (run env s))"
proof -
  let ?k = "truthy (OPENCODE_API_KEY env)"
  let ?p = "loadFreeModelIds s"
  have cold: "MODEL_MAP (run env s) = MODEL_MAP s
        \<or> (\<exists>ids. zenModelIdsOf (zen env) (Some COLD_START_TIMEOUT_MS) = Some ids
              \<and> set (Map_keys (MODEL_MAP (run env s))) \<subseteq> set ids)"
    if none: "loadModelsFromCache s = None"
  proof -
    have r: "run env s = coldStart ?k ?p env s"
      using none by (simp add: run_def activate_cold)
    from coldStart_cases [of ?k ?p env s]
    consider "MODEL_MAP (coldStart ?k ?p env s) = MODEL_MAP s"
      | ms where "fst (fetchFreshModels ?k (Some COLD_START_TIMEOUT_MS) env s) = Some ms"
          and "set (Map_keys (MODEL_MAP (coldStart ?k ?p env s))) = mc_id ` set ms"
      by blast
    then show ?thesis
    proof cases
      case 1
      then show ?thesis unfolding r by simp
    next
      case (2 ms)
      from fresh_ids_within [OF 2(1) agreeCold] 2(2) show ?thesis
        unfolding r by auto
    qed
  qed
  have warm: "set (Map_keys (MODEL_MAP (fst (activate env s)))) \<subseteq> set (cachedIds s)
          \<and> (fst (fetchFreshModels ?k None env s) = None
                \<or> fst (fetchFreshModels ?k None env s) = Some []
              \<longrightarrow> MODEL_MAP (run env s) = MODEL_MAP (fst (activate env s)))
          \<and> (\<forall>ms. fst (fetchFreshModels ?k None env s) = Some ms \<and> ms \<noteq> []
              \<longrightarrow> (\<exists>ids. zenModelIdsOf (zen env) None = Some ids
                      \<and> set (Map_keys (MODEL_MAP (run env s))) \<subseteq> set ids))"
    if some: "loadModelsFromCache s \<noteq> None"
  proof -
    from some obtain cm where cm: "loadModelsFromCache s = Some cm" by auto
    let ?s1 = "fastPath cm ?k ?p env s"
    have a: "activate env s = (?s1, True)"
      using cm by (rule activate_warm)
    have r: "run env s = backgroundRefresh env ?s1"
      by (simp add: run_def a)
    from cm have mf: "models_file s = Some cm"
      by (rule loadModelsFromCache_file)
    with consistent have within: "mc_id ` set cm \<subseteq> set (cachedIds s)"
      by (auto simp: cacheConsistent_def list_all_iff)
    have "set (Map_keys (MODEL_MAP ?s1)) \<subseteq> mc_id ` set cm"
      by (auto simp: fastPath_MODEL_MAP Map_keys_setModels Map_keys_Nil)
    with within have 1: "set (Map_keys (MODEL_MAP (fst (activate env s)))) \<subseteq> set (cachedIds s)"
      unfolding a by simp
    have indep: "fst (fetchFreshModels ?k None env ?s1) = fst (fetchFreshModels ?k None env s)"
      by (rule fetchFreshModels_fst_indep)
    have 2: "MODEL_MAP (run env s) = MODEL_MAP (fst (activate env s))"
      if "fst (fetchFreshModels ?k None env s) = None
          \<or> fst (fetchFreshModels ?k None env s) = Some []"
    proof -
      from that have "fst (fetchFreshModels ?k None env ?s1) = None
          \<or> fst (fetchFreshModels ?k None env ?s1) = Some []"
        unfolding indep .
      then have "backgroundRefresh env ?s1 = snd (fetchFreshModels ?k None env ?s1)"
        by (rule backgroundRefresh_kept)
      then show ?thesis
        unfolding r a by (simp add: fetchFreshModels_frame)
    qed
    have 3: "\<exists>ids. zenModelIdsOf (zen env) None = Some ids
                \<and> set (Map_keys (MODEL_MAP (run env s))) \<subseteq> set ids"
      if "fst (fetchFreshModels ?k None env s) = Some ms \<and> ms \<noteq> []" for ms
    proof -
      from that have ms: "fst (fetchFreshModels ?k None env ?s1) = Some ms" and ne: "ms \<noteq> []"
        unfolding indep by simp_all
      have "set (Map_keys (MODEL_MAP (backgroundRefresh env ?s1))) = mc_id ` set ms"
        unfolding backgroundRefresh_published [OF ms ne]
        by (simp add: saveFreeModelIds_frame registerModels_frame Map_keys_setModels Map_keys_Nil)
      with fresh_ids_within [OF ms agreeWarm] show ?thesis
        unfolding r by auto
    qed
    from 1 2 3 show ?thesis by blast
  qed
  have inv: "cacheConsistent (run env s)"
    if w: "writable s ZEN_MODELS_CACHE_FILE = writable s MODELS_CACHE_FILE"
  proof (cases "loadModelsFromCache s")
    case None
    have r: "run env s = coldStart ?k ?p env s"
      using None by (simp add: run_def activate_cold)
    have "cacheConsistent (snd (fetchFreshModels ?k (Some COLD_START_TIMEOUT_MS) env s))"
      using consistent agreeCold w by (rule fetchFreshModels_consistent)
    moreover have "cacheConsistent (coldStart ?k ?p env s)
        = cacheConsistent (snd (fetchFreshModels ?k (Some COLD_START_TIMEOUT_MS) env s))"
      using coldStart_cases [of ?k ?p env s] by (intro cacheConsistent_cong) blast+
    ultimately show ?thesis
      unfolding r by simp
  next
    case (Some cm)
    let ?s1 = "fastPath cm ?k ?p env s"
    have r: "run env s = backgroundRefresh env ?s1"
      using Some by (simp add: run_def activate_warm)
    have "cacheConsistent ?s1 = cacheConsistent s"
      by (intro cacheConsistent_cong) (simp_all add: fastPath_files)
    with consistent have c1: "cacheConsistent ?s1"
      by simp
    have w1: "writable ?s1 ZEN_MODELS_CACHE_FILE = writable ?s1 MODELS_CACHE_FILE"
      using w by (simp add: fastPath_files)
    have "cacheConsistent (snd (fetchFreshModels ?k None env ?s1))"
      using c1 agreeWarm w1 by (rule fetchFreshModels_consistent)
    moreover have "cacheConsistent (backgroundRefresh env ?s1)
        = cacheConsistent (snd (fetchFreshModels ?k None env ?s1))"
      using backgroundRefresh_cases [of env ?s1] by (intro cacheConsistent_cong) blast+
    ultimately show ?thesis
      unfolding r by simp
  qed
  from cold warm inv show ?thesis by blast
qed


section \<open>A background refresh that fails\<close>

text \<open>
  C10. When the authoritative fetch of the background refresh fails, the refresh leaves the
  whole state as it was: the published map, the three cache files and the log; the run then
  ends in the state the fast path left. The fast path itself writes no file. The free-id
  snapshot is not written by a refresh whose result is \<^verbatim>\<open>null\<close> or empty, and is written
  last, with the free ids of the fresh registry, by one whose result is not empty.
\<close>

theorem C10_failed_refresh_changes_nothing:
  "(fetchZenModels (zen env) = Inl e \<longrightarrow>
      backgroundRefresh env s = s
      \<and> (loadModelsFromCache s \<noteq> None \<longrightarrow> run env s = fst (activate env s)))
   \<and> (loadModelsFromCache s \<noteq> None \<longrightarrow>
        snd (activate env s) = True
        \<and> zen_models_file (fst (activate env s)) = zen_models_file s
        \<and> models_file (fst (activate env s)) = models_file s
        \<and> free_ids_file (fst (activate env s)) = free_ids_file s
        \<and> written (fst (activate env s)) = written s)
   \<and> (fst (fetchFreshModels (truthy (OPENCODE_API_KEY env)) None env s) = None
        \<or> fst (fetchFreshModels (truthy (OPENCODE_API_KEY env)) None env s) = Some [] \<longrightarrow>
        free_ids_file (backgroundRefresh env s) = free_ids_file s
        \<and> filter (\<lambda>f. f = FREE_MODEL_IDS_FILE) (written (backgroundRefresh env s))
            = filter (\<lambda>f. f = FREE_MODEL_IDS_FILE) (written s))
   \<and> (fst (fetchFreshModels (truthy (OPENCODE_API_KEY env)) None env s) = Some ms \<and> ms \<noteq> []
        \<and> writable s FREE_MODEL_IDS_FILE \<longrightarrow>
        free_ids_file (backgroundRefresh env s) = Some (freeIdsOf ms)
        \<and> last (written (backgroundRefresh env s)) = FREE_MODEL_IDS_FILE)"
proof -
  let ?k = "truthy (OPENCODE_API_KEY env)"
  have fail: "backgroundRefresh env s = s" if "fetchZenModels (zen env) = Inl e"
    using that by (simp add: backgroundRefresh_def fetchFreshModels_def zenModelIdsOf_def)
  have act: "snd (activate env s) = True
        \<and> zen_models_file (fst (activate env s)) = zen_models_file s
        \<and> models_file (fst (activate env s)) = models_file s
        \<and> free_ids_file (fst (activate env s)) = free_ids_file s
        \<and> written (fst (activate env s)) = written s" if "loadModelsFromCache s \<noteq> None"
    using that by (auto simp: activate_warm fastPath_files)
  have 1: "fetchZenModels (zen env) = Inl e \<longrightarrow>
      backgroundRefresh env s = s
      \<and> (loadModelsFromCache s \<noteq> None \<longrightarrow> run env s = fst (activate env s))"
  proof (intro impI conjI)
    assume f: "fetchZenModels (zen env) = Inl e"
    then show "backgroundRefresh env s = s" by (rule fail)
    assume "loadModelsFromCache s \<noteq> None"
    then obtain cm where "loadModelsFromCache s = Some cm" by auto
    then show "run env s = fst (activate env s)"
      using f
      by (simp add: run_def activate_warm backgroundRefresh_def fetchFreshModels_def zenModelIdsOf_def)
  qed
  have 3: "fst (fetchFreshModels ?k None env s) = None
        \<or> fst (fetchFreshModels ?k None env s) = Some [] \<longrightarrow>
        free_ids_file (backgroundRefresh env s) = free_ids_file s
        \<and> filter (\<lambda>f. f = FREE_MODEL_IDS_FILE) (written (backgroundRefresh env s))
            = filter (\<lambda>f. f = FREE_MODEL_IDS_FILE) (written s)"
    by (auto simp: backgroundRefresh_kept fetchFreshModels_frame fetchFreshModels_no_free_write)
  have 4: "fst (fetchFreshModels ?k None env s) = Some ms \<and> ms \<noteq> []
        \<and> writable s FREE_MODEL_IDS_FILE \<longrightarrow>
        free_ids_file (backgroundRefresh env s) = Some (freeIdsOf ms)
        \<and> last (written (backgroundRefresh env s)) = FREE_MODEL_IDS_FILE"
    by (auto simp: backgroundRefresh_published saveFreeModelIds_def registerModels_frame
          fetchFreshModels_frame)
  from 1 act 3 4 show ?thesis by blast
qed


text \<open>The witness: the cache that knows \<^verbatim>\<open>m2\<close>, with Zen unreachable and with Zen answering.\<close>

theorem C10_failed_refresh_changes_nothing_witness:
  "fetchZenModels (zen offlineEnv) = Inl Rejection
   \<and> loadModelsFromCache warmCache \<noteq> None
   \<and> backgroundRefresh offlineEnv warmCache = warmCache
   \<and> run offlineEnv warmCache = fst (activate offlineEnv warmCache)
   \<and> written (fst (activate offlineEnv warmCache)) = written warmCache
   \<and> fst (fetchFreshModels (truthy (OPENCODE_API_KEY offlineEnv)) None offlineEnv warmCache) = None
   \<and> free_ids_file (backgroundRefresh offlineEnv warmCache) = free_ids_file warmCache
   \<and> fst (fetchFreshModels (truthy (OPENCODE_API_KEY mixedEnv)) None mixedEnv warmCache)
       = Some [defaults ''m2'']
   \<and> [defaults ''m2''] \<noteq> []
   \<and> writable warmCache FREE_MODEL_IDS_FILE
   \<and> free_ids_file (backgroundRefresh mixedEnv warmCache) = Some (freeIdsOf [defaults ''m2''])"
proof -
  have a: "fetchZenModels (zen offlineEnv) = Inl Rejection"
    by (simp add: fetchZenModels_def offlineEnv_def)
  have b: "loadModelsFromCache warmCache \<noteq> None"
    by (simp add: loadModelsFromCache_def warmCache_def processStart_def defaults_def)
  have c: "fst (fetchFreshModels (truthy (OPENCODE_API_KEY offlineEnv)) None offlineEnv warmCache) = None"
    by (simp add: fetchFreshModels_def zenModelIdsOf_def fetchZenModels_def offlineEnv_def)
  have d: "fst (fetchFreshModels (truthy (OPENCODE_API_KEY mixedEnv)) None mixedEnv warmCache)
       = Some [defaults ''m2'']"
    by (simp add: fetchFreshModels_eq buildModels_fst run_defs merge_defs mixedEnv_def paidEntry_def)
  have e: "[defaults ''m2''] \<noteq> []"
    by simp
  have f: "writable warmCache FREE_MODEL_IDS_FILE"
    by (simp add: warmCache_def processStart_def)
  from a b c d e f
    C10_failed_refresh_changes_nothing [of offlineEnv Rejection warmCache "[]"]
    C10_failed_refresh_changes_nothing [of mixedEnv Rejection warmCache "[defaults ''m2'']"]
  show ?thesis by simp
qed

end
